theory Spec2Isabelle
  imports Complex_Main
begin

section \<open>Host values: numbers and strings\<close>

text \<open>
  A JavaScript number is a finite value, one of the two infinities, or NaN. A finite
  value carries its exact rational value: the rounding of binary64, its overflow to an
  infinity and underflow to zero, and the sign of zero are not represented (the code below
  only parses, tests, compares and subtracts numbers).
  A string is a list of 8-bit code units.
\<close>

datatype jsnum = NaN | NInf | Fin rat | PInf

fun isNaN :: "jsnum \<Rightarrow> bool" where
  "isNaN NaN = True"
| "isNaN _ = False"

text \<open>\<^verbatim>\<open>a - b\<close>, \<^verbatim>\<open>a / b\<close>, \<^verbatim>\<open>a >= b\<close>, \<^verbatim>\<open>a <= b\<close> and \<^verbatim>\<open>a === b\<close> on numbers.\<close>

fun jsSub :: "jsnum \<Rightarrow> jsnum \<Rightarrow> jsnum" where
  "jsSub NaN _ = NaN"
| "jsSub _ NaN = NaN"
| "jsSub (Fin a) (Fin b) = Fin (a - b)"
| "jsSub PInf PInf = NaN"
| "jsSub NInf NInf = NaN"
| "jsSub PInf _ = PInf"
| "jsSub NInf _ = NInf"
| "jsSub _ PInf = NInf"
| "jsSub _ NInf = PInf"

fun jsDivide :: "jsnum \<Rightarrow> jsnum \<Rightarrow> jsnum" where
  "jsDivide NaN _ = NaN"
| "jsDivide _ NaN = NaN"
| "jsDivide (Fin a) (Fin b) =
     (if b = 0 then (if a = 0 then NaN else if 0 < a then PInf else NInf) else Fin (a / b))"
| "jsDivide (Fin a) _ = Fin 0"
| "jsDivide PInf (Fin b) = (if 0 \<le> b then PInf else NInf)"
| "jsDivide NInf (Fin b) = (if 0 \<le> b then NInf else PInf)"
| "jsDivide _ _ = NaN"

fun jsGe :: "jsnum \<Rightarrow> jsnum \<Rightarrow> bool" where
  "jsGe NaN _ = False"
| "jsGe _ NaN = False"
| "jsGe (Fin a) (Fin b) = (b \<le> a)"
| "jsGe PInf _ = True"
| "jsGe _ NInf = True"
| "jsGe _ _ = False"

definition jsLe :: "jsnum \<Rightarrow> jsnum \<Rightarrow> bool" where
  "jsLe a b = jsGe b a"

definition strictEq :: "jsnum \<Rightarrow> jsnum \<Rightarrow> bool" where
  "strictEq a b = (\<not> isNaN a \<and> a = b)"

text \<open>\<^verbatim>\<open>!v\<close> is true exactly for 0 and NaN; \<^verbatim>\<open>v || 0\<close> replaces those by 0.\<close>

fun truthy :: "jsnum \<Rightarrow> bool" where
  "truthy NaN = False"
| "truthy (Fin q) = (q \<noteq> 0)"
| "truthy _ = True"

definition orZero :: "jsnum \<Rightarrow> jsnum" where
  "orZero v = (if truthy v then v else Fin 0)"

text \<open>\<^verbatim>\<open>Math.ceil\<close>.\<close>

fun mathCeil :: "jsnum \<Rightarrow> jsnum" where
  "mathCeil (Fin q) = Fin (of_int \<lceil>q\<rceil>)"
| "mathCeil v = v"

text \<open>
  White space as \<^verbatim>\<open>String.prototype.trim\<close>, \<^verbatim>\<open>parseFloat\<close> and the regular
  expression class \<^verbatim>\<open>\s\<close> see it, among 8-bit code units: TAB, LF, VT, FF, CR, space
  and the no-break space.
\<close>

definition isWhiteSpace :: "char \<Rightarrow> bool" where
  "isWhiteSpace c = (c \<in> {CHR 0x09, CHR 0x0A, CHR 0x0B, CHR 0x0C, CHR 0x0D, CHR 0x20, CHR 0xA0})"

definition trimStart :: "string \<Rightarrow> string" where
  "trimStart s = dropWhile isWhiteSpace s"

definition trim :: "string \<Rightarrow> string" where
  "trim s = rev (dropWhile isWhiteSpace (rev (dropWhile isWhiteSpace s)))"

text \<open>\<^verbatim>\<open>s.split(c)\<close> for a one-character separator, and \<^verbatim>\<open>parts.join(sep)\<close>.\<close>

fun split :: "char \<Rightarrow> string \<Rightarrow> string list" where
  "split c [] = [[]]"
| "split c (x # xs) =
     (if x = c then [] # split c xs
      else (case split c xs of [] \<Rightarrow> [[x]] | y # ys \<Rightarrow> (x # y) # ys))"

fun join :: "string \<Rightarrow> string list \<Rightarrow> string" where
  "join sep [] = []"
| "join sep [x] = x"
| "join sep (x # y # ys) = x @ sep @ join sep (y # ys)"

definition startsWith :: "string \<Rightarrow> string \<Rightarrow> bool" where
  "startsWith s q = (take (length q) s = q)"

fun includesStr :: "string \<Rightarrow> string \<Rightarrow> bool" where
  "includesStr [] q = (q = [])"
| "includesStr (x # xs) q = (startsWith (x # xs) q \<or> includesStr xs q)"

text \<open>\<^verbatim>\<open>toLowerCase\<close> on 8-bit code units: A to Z and the Latin-1 capitals (not the
  multiplication sign) move up by 32, which sets bit 5.\<close>

definition toLowerChar :: "char \<Rightarrow> char" where
  "toLowerChar c =
     (let n = (of_char c :: nat)
      in if (65 \<le> n \<and> n \<le> 90) \<or> (192 \<le> n \<and> n \<le> 222 \<and> n \<noteq> 215)
         then Char (digit0 c) (digit1 c) (digit2 c) (digit3 c) (digit4 c) True (digit6 c) (digit7 c)
         else c)"

definition toLowerCase :: "string \<Rightarrow> string" where
  "toLowerCase s = map toLowerChar s"

text \<open>\<^verbatim>\<open>String(v)\<close> for a cell that is a string or \<^verbatim>\<open>undefined\<close>.\<close>

fun toStringJS :: "string option \<Rightarrow> string" where
  "toStringJS None = ''undefined''"
| "toStringJS (Some s) = s"

subsection \<open>parseFloat\<close>

text \<open>
  \<^verbatim>\<open>parseFloat\<close> skips leading white space and reads the longest prefix that is a
  decimal literal: an optional sign, then \<^verbatim>\<open>Infinity\<close>, or digits with an optional
  fraction and an optional exponent (an exponent counts only when it has a digit). With
  no such prefix the result is NaN.
\<close>

definition isDigit :: "char \<Rightarrow> bool" where
  "isDigit c = (c \<in> set ''0123456789'')"

definition digitsVal :: "string \<Rightarrow> nat" where
  "digitsVal ds = foldl (\<lambda>acc c. 10 * acc + (of_char c - 48)) 0 ds"

definition exponentPart :: "string \<Rightarrow> int" where
  "exponentPart s =
     (case s of
        [] \<Rightarrow> 0
      | c # r \<Rightarrow>
          if c = CHR ''e'' \<or> c = CHR ''E'' then
            (let sg = (case r of [] \<Rightarrow> 1 | d # _ \<Rightarrow> if d = CHR ''-'' then - 1 else (1::int));
                 ds = takeWhile isDigit
                        (case r of [] \<Rightarrow> []
                         | d # r' \<Rightarrow> if d = CHR ''-'' \<or> d = CHR ''+'' then r' else r)
             in if ds = [] then 0 else sg * int (digitsVal ds))
          else 0)"

definition scale10 :: "rat \<Rightarrow> int \<Rightarrow> rat" where
  "scale10 q e = (if 0 \<le> e then q * 10 ^ nat e else q / 10 ^ nat (- e))"

definition unsignedLiteral :: "string \<Rightarrow> jsnum" where
  "unsignedLiteral u =
     (if startsWith u ''Infinity'' then PInf
      else
        let ip = takeWhile isDigit u;
            r1 = dropWhile isDigit u;
            fp = (case r1 of [] \<Rightarrow> [] | c # r \<Rightarrow> if c = CHR ''.'' then takeWhile isDigit r else []);
            r2 = (case r1 of [] \<Rightarrow> [] | c # r \<Rightarrow> if c = CHR ''.'' then dropWhile isDigit r else r1)
        in if ip = [] \<and> fp = [] then NaN
           else Fin (scale10 (of_nat (digitsVal (ip @ fp)) / 10 ^ length fp) (exponentPart r2)))"

fun negate :: "jsnum \<Rightarrow> jsnum" where
  "negate NaN = NaN"
| "negate NInf = PInf"
| "negate PInf = NInf"
| "negate (Fin q) = Fin (- q)"

definition parseFloat :: "string \<Rightarrow> jsnum" where
  "parseFloat s =
     (case trimStart s of
        [] \<Rightarrow> NaN
      | c # r \<Rightarrow>
          if c = CHR ''-'' then negate (unsignedLiteral r)
          else if c = CHR ''+'' then unsignedLiteral r
          else unsignedLiteral (c # r))"

text \<open>
  \<^verbatim>\<open>Array.prototype.slice(start, end)\<close> on integer arguments: a negative index counts
  from the end, and both indices are clamped to the array.
\<close>

definition slice :: "'a list \<Rightarrow> int \<Rightarrow> int \<Rightarrow> 'a list" where
  "slice xs start fin =
     (let len = int (length xs);
          k = (if start < 0 then max (len + start) 0 else min start len);
          final = (if fin < 0 then max (len + fin) 0 else min fin len)
      in take (nat (final - k)) (drop (nat k) xs))"

text \<open>
  \<^verbatim>\<open>Array.prototype.sort(cmp)\<close>: the sort is stable, and a comparator result that is
  positive puts the first argument after the second (NaN counts as 0). The model inserts
  each element, from the right, before the first element it does not have to follow. For
  a comparator that is a consistent order this is the stable sorted arrangement; for any
  other comparator the host's order is implementation-defined and the model fixes one.
\<close>

fun positive :: "jsnum \<Rightarrow> bool" where
  "positive PInf = True"
| "positive (Fin q) = (0 < q)"
| "positive _ = False"

fun insertSorted :: "('a \<Rightarrow> 'a \<Rightarrow> jsnum) \<Rightarrow> 'a \<Rightarrow> 'a list \<Rightarrow> 'a list" where
  "insertSorted cmp x [] = [x]"
| "insertSorted cmp x (y # ys) =
     (if positive (cmp x y) then y # insertSorted cmp x ys else x # y # ys)"

definition arraySort :: "('a \<Rightarrow> 'a \<Rightarrow> jsnum) \<Rightarrow> 'a list \<Rightarrow> 'a list" where
  "arraySort cmp xs = foldr (insertSorted cmp) xs []"

section \<open>Records and category paths\<close>

text \<open>
  A record of the dataset is an object with string values, kept as an association list;
  \<^verbatim>\<open>row[column]\<close> is \<^verbatim>\<open>undefined\<close> (\<open>None\<close>) for a missing key.
\<close>

type_synonym row = "(string \<times> string) list"

definition cell :: "row \<Rightarrow> string \<Rightarrow> string option" where
  "cell r column = map_of r column"

definition CATEGORY_COLUMN :: string where
  "CATEGORY_COLUMN = ''category''"

definition NUMERIC_COLUMNS :: "string list" where
  "NUMERIC_COLUMNS = [''pri/we'', ''pro/cal'', ''weight'', ''price'', ''calories'', ''proteins'',
     ''fats'', ''carbohydrates'', ''average_rating'', ''rating_count'']"

definition SHOWN_BY_DEFAULT_COLUMNS :: "string list" where
  "SHOWN_BY_DEFAULT_COLUMNS = [''imgUrl'', ''name'', ''megacategory'', ''price'', ''weight'',
     ''calories'', ''proteins'', ''fats'', ''carbohydrates'', ''average_rating'', ''rating_count'',
     ''availability'', ''last_upd_time'']"

definition HIDDEN_BY_DEFAULT_COLUMNS :: "string list" where
  "HIDDEN_BY_DEFAULT_COLUMNS = [''url'', ''pri/we'', ''pro/cal'', ''content'', ''description'',
     ''category'']"

text \<open>
  \<^verbatim>\<open>normalizeString\<close>: the empty string for null and undefined, else no-break spaces
  become spaces and the string is lower-cased.
\<close>

definition normalizeString :: "string option \<Rightarrow> string" where
  "normalizeString v =
     (case v of
        None \<Rightarrow> []
      | Some s \<Rightarrow> toLowerCase (map (\<lambda>c. if c = CHR 0xA0 then CHR 0x20 else c) s))"

text \<open>
  \<^verbatim>\<open>normalizeHeader\<close> removes a leading U+FEFF and trims. U+FEFF is not an 8-bit code
  unit, so on these strings only the trim is left.
\<close>

definition normalizeHeader :: "string \<Rightarrow> string" where
  "normalizeHeader header = trim header"

text \<open>
  The path of a record, as the category filter computes it:
  \<^verbatim>\<open>
  const rawValue = row[CATEGORY_COLUMN] ?? '';
  const path = rawValue ? String(rawValue).split('#').map(p => p.trim()).join('#') : '';
  \<close>
\<close>

definition categoryPath :: "row \<Rightarrow> string" where
  "categoryPath r =
     (let rawValue = (case cell r CATEGORY_COLUMN of None \<Rightarrow> [] | Some v \<Rightarrow> v)
      in if rawValue \<noteq> [] then join ''#'' (map trim (split CHR ''#'' rawValue)) else [])"

section \<open>The category tree and the cascading toggle\<close>

datatype CategoryNode = CategoryNode (name: string) (path: string) (children: "CategoryNode list")

text \<open>
  \<^verbatim>\<open>
  const collectPaths = (nodes: CategoryNode[]): string[] => {
    const acc: string[] = [];
    const dfs = (n: CategoryNode[]) => {
      n.forEach(node => {
        acc.push(node.path);
        if (node.children.length) dfs(node.children);
      });
    };
    dfs(nodes);
    return acc;
  };
  \<close>
\<close>

function dfs :: "CategoryNode list \<Rightarrow> string list" where
  "dfs [] = []"
| "dfs (CategoryNode nm p cs # n) = p # (if cs \<noteq> [] then dfs cs else []) @ dfs n"
  by pat_completeness auto
termination
  by (relation "measure (size_list size)") auto

definition collectPaths :: "CategoryNode list \<Rightarrow> string list" where
  "collectPaths nodes = dfs nodes"

text \<open>
  \<^verbatim>\<open>
  const togglePath = (path: string) => {
    const newSel = new Set<string>(selected);
    const isSelected = newSel.has(path);
    const descendants = flatAllPaths.filter(p => p === path || p.startsWith(path + '#'));
    if (isSelected) {
      descendants.forEach(d => newSel.delete(d));
    } else {
      descendants.forEach(d => newSel.add(d));
      const parts = path.split('#');
      for (let i = 1; i < parts.length; i++) {
        const ancestorPath = parts.slice(0, i).join('#');
        newSel.add(ancestorPath);
      }
    }
    onSelectionChange(newSel);
  };
  \<close>
  The result is the set handed to \<^verbatim>\<open>onSelectionChange\<close>; \<open>tree\<close> is the forest the
  component was given, \<open>flatAllPaths = collectPaths tree\<close>.
\<close>

definition togglePath :: "CategoryNode list \<Rightarrow> string set \<Rightarrow> string \<Rightarrow> string set" where
  "togglePath tree selected pth =
     (let flatAllPaths = collectPaths tree;
          isSelected = (pth \<in> selected);
          descendants = filter (\<lambda>p. p = pth \<or> startsWith p (pth @ ''#'')) flatAllPaths
      in if isSelected then selected - set descendants
         else
           let parts = split CHR ''#'' pth
           in (selected \<union> set descendants)
                \<union> set (map (\<lambda>i. join ''#'' (take i parts)) [1..<length parts]))"

text \<open>
  \<^verbatim>\<open>
  const areAllSelected = flatAllPaths.every(p => selected.has(p));

  const toggleAll = () => {
    const newSel = new Set<string>();
    if (!areAllSelected) {
      flatAllPaths.forEach(p => newSel.add(p));
    }
    onSelectionChange(newSel);
  };
  \<close>
\<close>

definition toggleAll :: "CategoryNode list \<Rightarrow> string set \<Rightarrow> string set" where
  "toggleAll tree selected =
     (let flatAllPaths = collectPaths tree;
          areAllSelected = list_all (\<lambda>p. p \<in> selected) flatAllPaths
      in if \<not> areAllSelected then set flatAllPaths else {})"

text \<open>
  Every node of a forest with the paths of its ancestors, the root's first.
\<close>

function nodesWithAncestors :: "string list \<Rightarrow> CategoryNode list \<Rightarrow> (string list \<times> CategoryNode) list" where
  "nodesWithAncestors anc [] = []"
| "nodesWithAncestors anc (CategoryNode nm p cs # ns) =
     (anc, CategoryNode nm p cs) # nodesWithAncestors (anc @ [p]) cs @ nodesWithAncestors anc ns"
  by pat_completeness auto
termination
  by (relation "measure (\<lambda>(anc, ns). size_list size ns)") auto

text \<open>
  The invariant of the data model: the path of a root is its name, the path of a child is
  the path of its parent, \<open>#\<close>, and its name; a name holds no \<open>#\<close>, as the tree is built
  from paths split at \<open>#\<close>.
\<close>

function wellFormed :: "string option \<Rightarrow> CategoryNode list \<Rightarrow> bool" where
  "wellFormed parent [] = True"
| "wellFormed parent (CategoryNode nm p cs # ns) =
     (CHR ''#'' \<notin> set nm
      \<and> p = (case parent of None \<Rightarrow> nm | Some pp \<Rightarrow> pp @ ''#'' @ nm)
      \<and> wellFormed (Some p) cs
      \<and> wellFormed parent ns)"
  by pat_completeness auto
termination
  by (relation "measure (\<lambda>(parent, ns). size_list size ns)") auto

text \<open>
  The ancestor paths \<open>togglePath\<close> derives from a path, and the paths of the nodes of a
  forest that have a node with a given path among their ancestors.
\<close>

definition ancestorPaths :: "string \<Rightarrow> string list" where
  "ancestorPaths pth =
     (let parts = split CHR ''#'' pth in map (\<lambda>i. join ''#'' (take i parts)) [1..<length parts])"

definition descendantPaths :: "CategoryNode list \<Rightarrow> string \<Rightarrow> string set" where
  "descendantPaths tree pth =
     set (map (\<lambda>e. path (snd e)) (filter (\<lambda>e. pth \<in> set (fst e)) (nodesWithAncestors [] tree)))"

text \<open>The forest of the paths \<open>Drinks#Coffee\<close>, \<open>Drinks#Tea\<close> and \<open>Snacks\<close>.\<close>

definition exampleTree :: "CategoryNode list" where
  "exampleTree =
     [CategoryNode ''Drinks'' ''Drinks''
        [CategoryNode ''Coffee'' ''Drinks#Coffee'' [], CategoryNode ''Tea'' ''Drinks#Tea'' []],
      CategoryNode ''Snacks'' ''Snacks'' []]"

section \<open>Column filters\<close>

text \<open>
  A filter of a numeric column is \<^verbatim>\<open>{type: 'equals', value}\<close> or
  \<^verbatim>\<open>{type: 'range', min, max}\<close>, where a bound is a number or null; a filter of a
  string column has the optional fields \<^verbatim>\<open>contains\<close> and \<^verbatim>\<open>exclude\<close>, each a
  string or an array of strings.
\<close>

datatype patterns = Absent | Single string | Many "string list"

datatype column_filter =
    Equals jsnum
  | Range "jsnum option" "jsnum option"
  | Text patterns patterns

datatype column_type = TString | TNumber

text \<open>
  \<^verbatim>\<open>
  const value = parseFloat(row[column]);
  return value === filter.value;
  \<close>
  and
  \<^verbatim>\<open>
  const value = parseFloat(row[column]);
  return (!min || value >= min) && (!max || value <= max);
  \<close>
  where \<^verbatim>\<open>!min\<close> is true for null and, among the numbers, for 0 and NaN.
\<close>

definition equalsMatches :: "string \<Rightarrow> jsnum \<Rightarrow> row \<Rightarrow> bool" where
  "equalsMatches column v r = (let value = parseFloat (toStringJS (cell r column)) in strictEq value v)"

definition rangeMatches :: "string \<Rightarrow> jsnum option \<Rightarrow> jsnum option \<Rightarrow> row \<Rightarrow> bool" where
  "rangeMatches column mn mx r =
     (let value = parseFloat (toStringJS (cell r column))
      in (case mn of None \<Rightarrow> True | Some m \<Rightarrow> \<not> truthy m \<or> jsGe value m)
         \<and> (case mx of None \<Rightarrow> True | Some m \<Rightarrow> \<not> truthy m \<or> jsLe value m))"

text \<open>
  The filter panel builds the numeric filters. An input field holds the typed text; the
  other bound of a range is taken from the current filter (a number or null).
  \<^verbatim>\<open>
  const handleNumberFilterChange = (column: string, type: 'equals' | 'range', value: any) => {
    if (type === 'equals') {
      if (value === '') {
        onFilterChange(column, undefined);
      } else {
        onFilterChange(column, { type: 'equals', value: parseFloat(value) });
      }
    } else {
      const { min, max } = value;
      if (!min && !max) {
        onFilterChange(column, undefined);
      } else {
        onFilterChange(column, {
          type: 'range',
          min: min === '' ? null : parseFloat(min),
          max: max === '' ? null : parseFloat(max)
        });
      }
    }
  };
  \<close>
  The result is the filter handed to \<^verbatim>\<open>onFilterChange\<close>, \<open>None\<close> for
  \<^verbatim>\<open>undefined\<close>. \<^verbatim>\<open>parseFloat\<close> of a number gives the number back, and of null
  it parses the text \<^verbatim>\<open>null\<close>.
\<close>

datatype field_value = Typed string | Kept "jsnum option"

datatype number_input = EqualsInput string | RangeInput field_value field_value

fun falsyField :: "field_value \<Rightarrow> bool" where
  "falsyField (Typed s) = (s = [])"
| "falsyField (Kept None) = True"
| "falsyField (Kept (Some v)) = (\<not> truthy v)"

fun parseField :: "field_value \<Rightarrow> jsnum" where
  "parseField (Typed s) = parseFloat s"
| "parseField (Kept None) = parseFloat ''null''"
| "parseField (Kept (Some v)) = v"

definition boundOf :: "field_value \<Rightarrow> jsnum option" where
  "boundOf f = (if f = Typed [] then None else Some (parseField f))"

fun handleNumberFilterChange :: "number_input \<Rightarrow> column_filter option" where
  "handleNumberFilterChange (EqualsInput v) =
     (if v = [] then None else Some (Equals (parseFloat v)))"
| "handleNumberFilterChange (RangeInput mn mx) =
     (if falsyField mn \<and> falsyField mx then None
      else Some (Range (boundOf mn) (boundOf mx)))"

text \<open>
  The exclude string is cut at each comma that has an even number of double quotes after
  it (\<^verbatim>\<open>/,(?=(?:[^"]*"[^"]*")*[^"]*$)/\<close>); each piece is trimmed and loses one
  leading and one trailing double quote (\<^verbatim>\<open>/^"|"$/g\<close>).
\<close>

definition evenQuotes :: "string \<Rightarrow> bool" where
  "evenQuotes s = even (length (filter (\<lambda>c. c = CHR 0x22) s))"

fun splitCommas :: "string \<Rightarrow> string list" where
  "splitCommas [] = [[]]"
| "splitCommas (x # xs) =
     (if x = CHR '','' \<and> evenQuotes xs then [] # splitCommas xs
      else (case splitCommas xs of [] \<Rightarrow> [[x]] | y # ys \<Rightarrow> (x # y) # ys))"

definition stripQuotes :: "string \<Rightarrow> string" where
  "stripQuotes s =
     (let s1 = (case s of [] \<Rightarrow> [] | c # r \<Rightarrow> if c = CHR 0x22 then r else s)
      in if s1 \<noteq> [] \<and> last s1 = CHR 0x22 then butlast s1 else s1)"

fun containsPatterns :: "patterns \<Rightarrow> string list" where
  "containsPatterns Absent = []"
| "containsPatterns (Single s) = (if s = [] then [] else [s])"
| "containsPatterns (Many ps) = ps"

fun excludePatterns :: "patterns \<Rightarrow> string list" where
  "excludePatterns Absent = []"
| "excludePatterns (Single s) = (if s = [] then [] else map (\<lambda>p. stripQuotes (trim p)) (splitCommas s))"
| "excludePatterns (Many ps) = ps"

definition normalizedPatterns :: "string list \<Rightarrow> string list" where
  "normalizedPatterns ps = filter (\<lambda>p. p \<noteq> []) (map (\<lambda>p. normalizeString (Some p)) ps)"

text \<open>
  One turn of the loop over the filters. The entries are filter objects of one of the
  shapes above, as the filter panel stores them.
  \<^verbatim>\<open>
  Object.entries(filters).forEach(([column, filter]) => {
    if (!filter) return;
    if (columnTypes[column] === 'number') {
      if (filter.type === 'equals') {
        filteredData = filteredData.filter(row => { ... value === filter.value });
      } else if (filter.type === 'range') {
        const { min, max } = filter;
        filteredData = filteredData.filter(row => { ... (!min || value >= min) && (!max || value <= max) });
      }
    } else {
      const containsVal = (filter as any).contains;
      const excludeVal = (filter as any).exclude;
      if (containsVal) {
        const patterns: string[] = Array.isArray(containsVal) ? containsVal : [containsVal];
        const normalizedPatterns = patterns.map(normalizeString).filter(Boolean);
        if (normalizedPatterns.length > 0) {
          filteredData = filteredData.filter(row => {
            const cell = normalizeString(row[column]);
            return normalizedPatterns.every(pattern => cell.includes(pattern));
          });
        }
      }
      if (excludeVal) {
        let patterns: string[];
        if (Array.isArray(excludeVal)) {
          patterns = excludeVal;
        } else if (typeof excludeVal === 'string') {
          patterns = excludeVal.split(/,(?=(?:[^"]*"[^"]*")*[^"]*$)/).map(p => p.trim().replace(/^"|"$/g, ''));
        } else {
          patterns = [];
        }
        const normalizedPatterns = patterns.map(normalizeString).filter(Boolean);
        if (normalizedPatterns.length > 0) {
          filteredData = filteredData.filter(row => {
            const cell = normalizeString(row[column]);
            return !normalizedPatterns.some(pattern => cell.includes(pattern));
          });
        }
      }
    }
  });
  \<close>
\<close>

definition applyColumnFilter ::
  "(string \<rightharpoonup> column_type) \<Rightarrow> row list \<Rightarrow> string \<times> column_filter \<Rightarrow> row list" where
  "applyColumnFilter columnTypes filteredData entry =
     (let column = fst entry; flt = snd entry
      in if columnTypes column = Some TNumber then
           (case flt of
              Equals v \<Rightarrow> filter (equalsMatches column v) filteredData
            | Range mn mx \<Rightarrow> filter (rangeMatches column mn mx) filteredData
            | Text _ _ \<Rightarrow> filteredData)
         else
           (case flt of
              Text containsVal excludeVal \<Rightarrow>
                (let cps = normalizedPatterns (containsPatterns containsVal);
                     fd1 = (if cps \<noteq> [] then
                              filter (\<lambda>r. list_all (includesStr (normalizeString (cell r column))) cps)
                                filteredData
                            else filteredData);
                     eps = normalizedPatterns (excludePatterns excludeVal)
                 in if eps \<noteq> [] then
                      filter (\<lambda>r. \<not> list_ex (includesStr (normalizeString (cell r column))) eps) fd1
                    else fd1)
            | _ \<Rightarrow> filteredData))"

section \<open>Formulas\<close>

text \<open>
  The regular expression \<^verbatim>\<open>/"([^"]+)"/g\<close> cuts a formula into quoted references and
  the characters between them: a double quote opens a reference when at least one other
  character and then a closing double quote follow; otherwise it is an ordinary character.
\<close>

datatype piece = Chr char | Ref string

definition notQuote :: "char \<Rightarrow> bool" where
  "notQuote d = (d \<noteq> CHR 0x22)"

function scanQuoted :: "string \<Rightarrow> piece list" where
  "scanQuoted [] = []"
| "scanQuoted (c # cs) =
     (if c = CHR 0x22 \<and> takeWhile notQuote cs \<noteq> [] \<and> dropWhile notQuote cs \<noteq> []
      then Ref (takeWhile notQuote cs) # scanQuoted (tl (dropWhile notQuote cs))
      else Chr c # scanQuoted cs)"
  by pat_completeness auto
termination
proof (relation "measure length")
  show "wf (measure length)" by simp
next
  fix c :: char and cs :: string
  have "length (tl (dropWhile notQuote cs)) \<le> length cs"
    using length_dropWhile_le [of notQuote cs] by simp
  then show "(tl (dropWhile notQuote cs), c # cs) \<in> measure length" by simp
next
  fix c :: char and cs :: string
  show "(cs, c # cs) \<in> measure length" by simp
qed

fun refOf :: "piece \<Rightarrow> string list" where
  "refOf (Ref col) = [col]"
| "refOf (Chr c) = []"

fun textOf :: "piece \<Rightarrow> string" where
  "textOf (Ref col) = []"
| "textOf (Chr c) = [c]"

definition quotedRefs :: "string \<Rightarrow> string list" where
  "quotedRefs formula = concat (map refOf (scanQuoted formula))"

definition formulaWithoutQuotes :: "string \<Rightarrow> string" where
  "formulaWithoutQuotes formula = concat (map textOf (scanQuoted formula))"

text \<open>
  \<^verbatim>\<open>/\/\s*0(?![0-9])/\<close>: a slash, any white space, a zero, and then no digit.
\<close>

definition zeroFollows :: "string \<Rightarrow> bool" where
  "zeroFollows s =
     (case dropWhile isWhiteSpace s of
        [] \<Rightarrow> False
      | c # r \<Rightarrow> c = CHR ''0'' \<and> (case r of [] \<Rightarrow> True | d # _ \<Rightarrow> \<not> isDigit d))"

fun divisionByZeroTest :: "string \<Rightarrow> bool" where
  "divisionByZeroTest [] = False"
| "divisionByZeroTest (c # cs) = ((c = CHR ''/'' \<and> zeroFollows cs) \<or> divisionByZeroTest cs)"

text \<open>\<^verbatim>\<open>JSON.stringify\<close> of a string.\<close>

definition hexDigit :: "nat \<Rightarrow> char" where
  "hexDigit n = (''0123456789abcdef'' ! (n mod 16))"

definition jsonChar :: "char \<Rightarrow> string" where
  "jsonChar c =
     (if c = CHR 0x22 then [CHR 0x5C, CHR 0x22]
      else if c = CHR 0x5C then [CHR 0x5C, CHR 0x5C]
      else if c = CHR 0x08 then [CHR 0x5C, CHR ''b'']
      else if c = CHR 0x09 then [CHR 0x5C, CHR ''t'']
      else if c = CHR 0x0A then [CHR 0x5C, CHR ''n'']
      else if c = CHR 0x0C then [CHR 0x5C, CHR ''f'']
      else if c = CHR 0x0D then [CHR 0x5C, CHR ''r'']
      else if (of_char c :: nat) < 32
        then [CHR 0x5C, CHR ''u'', CHR ''0'', CHR ''0'', hexDigit (of_char c div 16), hexDigit (of_char c)]
      else [c])"

definition jsonStringify :: "string \<Rightarrow> string" where
  "jsonStringify s = [CHR 0x22] @ concat (map jsonChar s) @ [CHR 0x22]"

text \<open>
  Each reference becomes \<^verbatim>\<open>(parseFloat(row["col"])||0)\<close> in the expression text;
  \<open>columnRef\<close> is what that expression computes on a record.
\<close>

fun substitutePiece :: "piece \<Rightarrow> string" where
  "substitutePiece (Ref col) = ''(parseFloat(row['' @ jsonStringify col @ ''])||0)''"
| "substitutePiece (Chr c) = [c]"

definition substituteRefs :: "string \<Rightarrow> string" where
  "substituteRefs formula = concat (map substitutePiece (scanQuoted formula))"

definition columnRef :: "string \<Rightarrow> row \<Rightarrow> jsnum" where
  "columnRef col r = orZero (parseFloat (toStringJS (cell r col)))"

text \<open>What the formula \<^verbatim>\<open>"a"/"b"\<close> computes on a record, for two column names.\<close>

definition quotient :: "string \<Rightarrow> string \<Rightarrow> row \<Rightarrow> jsnum" where
  "quotient a b r = jsDivide (columnRef a r) (columnRef b r)"

text \<open>
  The host compiles a function body with \<^verbatim>\<open>new Function('row', body)\<close>: \<open>None\<close> when
  the body does not parse; the compiled function gives \<open>None\<close> on a record where it
  throws. \<^verbatim>\<open>localeCompare\<close> is the host's collation.
\<close>

record host =
  newFunction :: "string \<Rightarrow> (row \<Rightarrow> jsnum option) option"
  localeCompare :: "string \<Rightarrow> string \<Rightarrow> jsnum"

text \<open>A host on which no body compiles and all strings collate as equal, for examples.\<close>

definition quietHost :: host where
  "quietHost = \<lparr>newFunction = (\<lambda>body. None), localeCompare = (\<lambda>a b. Fin 0)\<rparr>"

text \<open>A host on which every body compiles to the quotient of the columns \<open>a\<close> and \<open>b\<close>.\<close>

definition quotientHost :: host where
  "quotientHost =
     \<lparr>newFunction = (\<lambda>body. Some (\<lambda>r. Some (quotient ''a'' ''b'' r))), localeCompare = (\<lambda>a b. Fin 0)\<rparr>"

text \<open>
  \<^verbatim>\<open>
  const buildFormulaFn = React.useMemo(() => {
    if (!appliedFormula.trim()) return null;
    const expr = appliedFormula.replace(/"([^"]+)"/g, (_, col: string) => {
      return `(parseFloat(row[${JSON.stringify(col)}])||0)`;
    });
    try {
      const fn = new Function('row', `try { return ${expr}; } catch(e) { return NaN; }`);
      return fn as (row: any) => number;
    } catch (e) {
      return null;
    }
  }, [appliedFormula]);
  \<close>
  The body catches what the expression throws and returns NaN.
\<close>

definition buildFormulaFn :: "host \<Rightarrow> string \<Rightarrow> (row \<Rightarrow> jsnum) option" where
  "buildFormulaFn h appliedFormula =
     (if trim appliedFormula = [] then None
      else
        let expr = substituteRefs appliedFormula
        in (case newFunction h (''try { return '' @ expr @ ''; } catch(e) { return NaN; }'') of
              None \<Rightarrow> None
            | Some fn \<Rightarrow> Some (\<lambda>r. case fn r of None \<Rightarrow> NaN | Some v \<Rightarrow> v)))"

section \<open>The view state\<close>

datatype direction = Asc | Desc

record SortConfig =
  key :: string
  direction :: direction

datatype toast_type = Success | Error | Loading

record toast =
  toastType :: toast_type
  title :: string
  message :: "string option"

text \<open>The state of the viewer component: its \<^verbatim>\<open>useState\<close> cells and the toasts shown.\<close>

record viewer =
  visibleColumns :: "string list"
  columnOrder :: "string list"
  sortConfig :: "SortConfig option"
  filters :: "(string \<times> column_filter) list"
  searchQuery :: string
  currentPage :: int
  rowsPerPage :: int
  columnTypes :: "string \<rightharpoonup> column_type"
  hideUnknownMacros :: bool
  formulaInput :: string
  appliedFormula :: string
  formulaSortDir :: "direction option"
  showFormulaHistory :: bool
  categoriesTree :: "CategoryNode list"
  selectedCategories :: "string set"
  isCategoryManagerOpen :: bool
  toasts :: "toast list"

definition initialViewer :: viewer where
  "initialViewer =
     \<lparr> visibleColumns = [], columnOrder = [], sortConfig = None, filters = [], searchQuery = [],
       currentPage = 1, rowsPerPage = 10, columnTypes = Map.empty, hideUnknownMacros = True,
       formulaInput = [], appliedFormula = [], formulaSortDir = None, showFormulaHistory = False,
       categoriesTree = [], selectedCategories = {}, isCategoryManagerOpen = False, toasts = [] \<rparr>"

text \<open>
  The column types, set when the headers change:
  \<^verbatim>\<open>
  headers.forEach((header, index) => {
    const normalizedHeader = normalizeHeader(header);
    types[header] = NUMERIC_COLUMNS.includes(normalizedHeader) ? 'number' : 'string';
  });
  \<close>
\<close>

definition deriveColumnTypes :: "string list \<Rightarrow> (string \<rightharpoonup> column_type)" where
  "deriveColumnTypes headers =
     foldl (\<lambda>types header.
              types(header \<mapsto> (if normalizeHeader header \<in> set NUMERIC_COLUMNS then TNumber else TString)))
       Map.empty headers"

definition addToast :: "toast \<Rightarrow> viewer \<Rightarrow> viewer" where
  "addToast t st = st\<lparr>toasts := toasts st @ [t]\<rparr>"

section \<open>The filter and sort pipeline\<close>

text \<open>
  \<^verbatim>\<open>
  if (headers.some(h => normalizeHeader(h) === CATEGORY_COLUMN) && selectedCategories.size > 0) {
    workingData = workingData.filter(row => {
      const rawValue = row[CATEGORY_COLUMN] ?? '';
      const path = rawValue ? String(rawValue).split('#').map(p => p.trim()).join('#') : '';
      return selectedCategories.has(path);
    });
  }
  \<close>
\<close>

definition exposesCategory :: "string list \<Rightarrow> bool" where
  "exposesCategory headers = list_ex (\<lambda>h. normalizeHeader h = CATEGORY_COLUMN) headers"

definition categoryStage :: "string list \<Rightarrow> string set \<Rightarrow> row list \<Rightarrow> row list" where
  "categoryStage headers selected workingData =
     (if exposesCategory headers \<and> selected \<noteq> {}
      then filter (\<lambda>r. categoryPath r \<in> selected) workingData
      else workingData)"

text \<open>
  \<^verbatim>\<open>
  if (searchQuery) {
    const query = normalizeString(searchQuery);
    filteredData = workingData.filter(row =>
      visibleColumns.some(column => normalizeString(row[column]).includes(query)));
  }
  \<close>
\<close>

definition searchStage :: "string \<Rightarrow> string list \<Rightarrow> row list \<Rightarrow> row list" where
  "searchStage query visible workingData =
     (if query \<noteq> [] then
        (let q = normalizeString (Some query)
         in filter (\<lambda>r. list_ex (\<lambda>column. includesStr (normalizeString (cell r column)) q) visible)
              workingData)
      else workingData)"

text \<open>
  \<^verbatim>\<open>
  if (hideUnknownMacros) {
    filteredData = filteredData.filter(row => {
      const calories = parseFloat(row.calories);
      return calories !== 100500;
    });
  }
  \<close>
\<close>

definition sentinelStage :: "bool \<Rightarrow> row list \<Rightarrow> row list" where
  "sentinelStage hide filteredData =
     (if hide then
        filter (\<lambda>r. let calories = parseFloat (toStringJS (cell r ''calories''))
                    in \<not> strictEq calories (Fin 100500)) filteredData
      else filteredData)"

text \<open>
  The two comparators handed to \<^verbatim>\<open>sort\<close>:
  \<^verbatim>\<open>
  const aVal = buildFormulaFn(a);
  const bVal = buildFormulaFn(b);
  const aNum = isNaN(aVal) ? -Infinity : aVal;
  const bNum = isNaN(bVal) ? -Infinity : bVal;
  return formulaSortDir === 'asc' ? aNum - bNum : bNum - aNum;
  \<close>
  (\<open>orderValue\<close> is \<^verbatim>\<open>isNaN(v) ? -Infinity : v\<close>) and
  \<^verbatim>\<open>
  const aValue = a[sortConfig.key];
  const bValue = b[sortConfig.key];
  const aNum = !isNaN(parseFloat(aValue));
  const bNum = !isNaN(parseFloat(bValue));
  if (aNum && bNum) {
    return sortConfig.direction === 'asc'
      ? parseFloat(aValue) - parseFloat(bValue)
      : parseFloat(bValue) - parseFloat(aValue);
  } else {
    if (sortConfig.direction === 'asc') {
      return String(aValue).localeCompare(String(bValue));
    } else {
      return String(bValue).localeCompare(String(aValue));
    }
  }
  \<close>
\<close>

definition orderValue :: "jsnum \<Rightarrow> jsnum" where
  "orderValue v = (if isNaN v then NInf else v)"

definition formulaComparator :: "(row \<Rightarrow> jsnum) \<Rightarrow> direction \<Rightarrow> row \<Rightarrow> row \<Rightarrow> jsnum" where
  "formulaComparator fn dir a b =
     (let aVal = fn a;
          bVal = fn b;
          aNum = orderValue aVal;
          bNum = orderValue bVal
      in if dir = Asc then jsSub aNum bNum else jsSub bNum aNum)"

definition columnComparator :: "host \<Rightarrow> SortConfig \<Rightarrow> row \<Rightarrow> row \<Rightarrow> jsnum" where
  "columnComparator h cfg a b =
     (let aValue = toStringJS (cell a (key cfg));
          bValue = toStringJS (cell b (key cfg));
          aNum = (\<not> isNaN (parseFloat aValue));
          bNum = (\<not> isNaN (parseFloat bValue))
      in if aNum \<and> bNum then
           (if direction cfg = Asc then jsSub (parseFloat aValue) (parseFloat bValue)
            else jsSub (parseFloat bValue) (parseFloat aValue))
         else
           (if direction cfg = Asc then localeCompare h aValue bValue
            else localeCompare h bValue aValue))"

definition sortStage ::
  "host \<Rightarrow> (row \<Rightarrow> jsnum) option \<Rightarrow> direction option \<Rightarrow> SortConfig option \<Rightarrow> row list \<Rightarrow> row list" where
  "sortStage h formulaFn dir cfg filteredData =
     (case (formulaFn, dir) of
        (Some fn, Some d) \<Rightarrow> arraySort (formulaComparator fn d) filteredData
      | _ \<Rightarrow>
          (case cfg of
             Some c \<Rightarrow> arraySort (columnComparator h c) filteredData
           | None \<Rightarrow> filteredData))"

text \<open>\<open>processedData\<close>: the stages in the order of the source.\<close>

definition processedData :: "host \<Rightarrow> row list \<Rightarrow> string list \<Rightarrow> viewer \<Rightarrow> row list" where
  "processedData h data headers st =
     (if data = [] then []
      else
        let workingData = categoryStage headers (selectedCategories st) data;
            searched = searchStage (searchQuery st) (visibleColumns st) workingData;
            unhidden = sentinelStage (hideUnknownMacros st) searched;
            filteredData = foldl (applyColumnFilter (columnTypes st)) unhidden (filters st)
        in sortStage h (buildFormulaFn h (appliedFormula st)) (formulaSortDir st) (sortConfig st)
             filteredData)"

section \<open>Handlers of the view state\<close>

text \<open>
  \<^verbatim>\<open>
  const handleSort = (column: string) => {
    setFormulaSortDir(null);
    setSortConfig(prevSortConfig => {
      if (prevSortConfig?.key === column) {
        if (prevSortConfig.direction === 'asc') {
          return { key: column, direction: 'desc' };
        }
        return null;
      }
      return { key: column, direction: 'asc' };
    });
  };

  const applyFormulaSort = (dir: 'asc' | 'desc') => {
    if (!appliedFormula.trim()) return;
    setFormulaSortDir(dir);
    setSortConfig(null); // clear column sort to avoid confusion
  };

  const clearFormulaSort = () => {
    setFormulaSortDir(null);
  };
  \<close>
  \<open>applyFormulaSort\<close> is called by the two formula sort buttons only, and both are
  disabled on the condition of its first line:
  \<^verbatim>\<open>
  <button onClick={() => applyFormulaSort('asc')} disabled={!appliedFormula.trim()} ...>
  <button onClick={() => applyFormulaSort('desc')} disabled={!appliedFormula.trim()} ...>
  \<close>
\<close>

definition handleSort :: "string \<Rightarrow> viewer \<Rightarrow> viewer" where
  "handleSort column st =
     st\<lparr> formulaSortDir := None,
         sortConfig :=
           (case sortConfig st of
              None \<Rightarrow> Some \<lparr>key = column, direction = Asc\<rparr>
            | Some prevSortConfig \<Rightarrow>
                if key prevSortConfig = column then
                  (if direction prevSortConfig = Asc then Some \<lparr>key = column, direction = Desc\<rparr>
                   else None)
                else Some \<lparr>key = column, direction = Asc\<rparr>) \<rparr>"

definition applyFormulaSort :: "direction \<Rightarrow> viewer \<Rightarrow> viewer" where
  "applyFormulaSort dir st =
     (if trim (appliedFormula st) = [] then st
      else st\<lparr>formulaSortDir := Some dir, sortConfig := None\<rparr>)"

definition clearFormulaSort :: "viewer \<Rightarrow> viewer" where
  "clearFormulaSort st = st\<lparr>formulaSortDir := None\<rparr>"

text \<open>\<open>handleReset\<close>, with the header list of the dataset.\<close>

definition handleReset :: "string list \<Rightarrow> viewer \<Rightarrow> viewer" where
  "handleReset headers st =
     (let st1 = st\<lparr> sortConfig := None, formulaSortDir := None, formulaInput := [],
                    appliedFormula := [], filters := [], searchQuery := [], currentPage := 1,
                    hideUnknownMacros := True \<rparr>;
          shown = filter (\<lambda>col. col \<in> set headers) SHOWN_BY_DEFAULT_COLUMNS;
          hiddenToggle = filter (\<lambda>col. col \<in> set headers) HIDDEN_BY_DEFAULT_COLUMNS;
          remainder = filter (\<lambda>h. h \<notin> set shown \<and> h \<notin> set hiddenToggle) headers;
          st2 = (if headers \<noteq> [] then
                   st1\<lparr>visibleColumns := shown, columnOrder := shown @ hiddenToggle @ remainder\<rparr>
                 else st1)
      in st2\<lparr> isCategoryManagerOpen := False,
              selectedCategories := set (collectPaths (categoriesTree st)) \<rparr>)"

text \<open>
  The two ways a formula gets applied: typed and validated, or picked from the history,
  which sets the input and the applied formula and closes the list.
  \<^verbatim>\<open>
  const validateAndApplyFormula = () => {
    const formula = formulaInput.trim();
    if (!formula) return;
    const missingCols: string[] = [];
    formula.replace(/"([^"]+)"/g, (_, col: string) => {
      if (!headers.includes(col)) missingCols.push(col);
      return '';
    });
    if (missingCols.length > 0) {
      addToast({ type: 'error', title: 'Unknown column(s)', message: missingCols.join(', ') });
      return;
    }
    const formulaWithoutQuotes = formula.replace(/"[^\"]+"/g, '');
    if (/\/\s*0(?![0-9])/g.test(formulaWithoutQuotes)) {
      addToast({ type: 'error', title: 'Division by zero', message: 'Formula contains division by 0 constant' });
      return;
    }
    const expr = formula.replace(/"([^"]+)"/g, (_, col: string) => `(parseFloat(row[${JSON.stringify(col)}])||0)`);
    try {
      const fn = new Function('row', `return ${expr};`);
      if (data.length > 0) {
        const testVal = fn(data[0]);
        if (isNaN(testVal)) {
          addToast({ type: 'error', title: 'Formula result is NaN', message: 'Ensure numeric columns used.' });
          return;
        }
      }
      setFormulaInput(formula);
      setAppliedFormula(formula);
      setFormulaSortDir(null);
      setShowFormulaHistory(false);
      addToast({ type: 'success', title: 'Formula applied' });
    } catch (e) {
      addToast({ type: 'error', title: 'Invalid formula syntax' });
    }
  };
  \<close>
\<close>

definition formulaAccepted :: "string \<Rightarrow> viewer \<Rightarrow> viewer" where
  "formulaAccepted formula st =
     addToast \<lparr>toastType = Success, title = ''Formula applied'', message = None\<rparr>
       (st\<lparr> formulaInput := formula, appliedFormula := formula, formulaSortDir := None,
            showFormulaHistory := False \<rparr>)"

definition invalidSyntax :: "viewer \<Rightarrow> viewer" where
  "invalidSyntax st =
     addToast \<lparr>toastType = Error, title = ''Invalid formula syntax'', message = None\<rparr> st"

definition validateAndApplyFormula :: "host \<Rightarrow> string list \<Rightarrow> row list \<Rightarrow> viewer \<Rightarrow> viewer" where
  "validateAndApplyFormula h headers data st =
     (let formula = trim (formulaInput st)
      in if formula = [] then st
         else
           let missingCols = filter (\<lambda>col. col \<notin> set headers) (quotedRefs formula)
           in if missingCols \<noteq> [] then
                addToast \<lparr>toastType = Error, title = ''Unknown column(s)'',
                          message = Some (join '', '' missingCols)\<rparr> st
              else if divisionByZeroTest (formulaWithoutQuotes formula) then
                addToast \<lparr>toastType = Error, title = ''Division by zero'',
                          message = Some ''Formula contains division by 0 constant''\<rparr> st
              else
                let expr = substituteRefs formula
                in (case newFunction h (''return '' @ expr @ '';'') of
                      None \<Rightarrow> invalidSyntax st
                    | Some fn \<Rightarrow>
                        (case data of
                           [] \<Rightarrow> formulaAccepted formula st
                         | first # _ \<Rightarrow>
                             (case fn first of
                                None \<Rightarrow> invalidSyntax st
                              | Some testVal \<Rightarrow>
                                  if isNaN testVal then
                                    addToast \<lparr>toastType = Error, title = ''Formula result is NaN'',
                                              message = Some ''Ensure numeric columns used.''\<rparr> st
                                  else formulaAccepted formula st))))"

text \<open>
  The history of formulas is read from the browser's storage when the component starts,
  gets every formula that becomes the applied one, and is not cleared when the dataset
  changes. A click on an entry \<open>f\<close> of the list applies it:
  \<^verbatim>\<open>
  const [formulaHistory, setFormulaHistory] = useState<string[]>(() => {
    const stored = localStorage.getItem('formulaHistory');
    return stored ? JSON.parse(stored) : [];
  });

  useEffect(() => {
    if (appliedFormula) {
      addFormulaToHistory(appliedFormula);
    }
  }, [appliedFormula]);

  const addFormulaToHistory = (f: string) => {
    setFormulaHistory(prev => {
      const updated = [f, ...prev.filter(x => x !== f)].slice(0, 15);
      localStorage.setItem('formulaHistory', JSON.stringify(updated));
      return updated;
    });
  };

  {formulaHistory.map((f, idx) => (
    <button onClick={() => {
      setFormulaInput(f);
      setAppliedFormula(f);
      setShowFormulaHistory(false);
      addToast({ type: 'success', title: 'Formula applied' });
    }} ...>
  \<close>
\<close>

definition addFormulaToHistory :: "string \<Rightarrow> string list \<Rightarrow> string list" where
  "addFormulaToHistory f prev = take 15 (f # filter (\<lambda>x. x \<noteq> f) prev)"

definition applyFromHistory :: "string \<Rightarrow> viewer \<Rightarrow> viewer" where
  "applyFromHistory f st =
     addToast \<lparr>toastType = Success, title = ''Formula applied'', message = None\<rparr>
       (st\<lparr>formulaInput := f, appliedFormula := f, showFormulaHistory := False\<rparr>)"

text \<open>
  The states the viewer can reach from its initial state. The handlers above are the only
  ones that write the column sort or the formula sort direction; every other handler is
  covered by the last rule, which lets the other cells change freely.
\<close>

inductive reachable :: "viewer \<Rightarrow> bool" where
  initial: "reachable initialViewer"
| columnSort: "reachable st \<Longrightarrow> reachable (handleSort column st)"
| formulaSort: "reachable st \<Longrightarrow> reachable (applyFormulaSort dir st)"
| clearSort: "reachable st \<Longrightarrow> reachable (clearFormulaSort st)"
| reset: "reachable st \<Longrightarrow> reachable (handleReset headers st)"
| validate: "reachable st \<Longrightarrow> reachable (validateAndApplyFormula h headers data st)"
| history: "reachable st \<Longrightarrow> reachable (applyFromHistory f st)"
| other: "reachable st \<Longrightarrow> sortConfig st' = sortConfig st \<Longrightarrow> formulaSortDir st' = formulaSortDir st
          \<Longrightarrow> reachable st'"

definition oneSortMode :: "viewer \<Rightarrow> bool" where
  "oneSortMode st = (sortConfig st = None \<or> formulaSortDir st = None)"

section \<open>Pagination\<close>

text \<open>
  \<^verbatim>\<open>
  const paginatedData = React.useMemo(() => {
    const startIndex = (currentPage - 1) * rowsPerPage;
    return processedData.slice(startIndex, startIndex + rowsPerPage);
  }, [processedData, currentPage, rowsPerPage]);

  const totalPages = Math.ceil(processedData.length / rowsPerPage);
  \<close>
  Both take the processed rows, the current page and the rows per page.
\<close>

definition paginatedData :: "'a list \<Rightarrow> int \<Rightarrow> int \<Rightarrow> 'a list" where
  "paginatedData processed page pageSize =
     (let startIndex = (page - 1) * pageSize
      in slice processed startIndex (startIndex + pageSize))"

definition totalPages :: "'a list \<Rightarrow> int \<Rightarrow> jsnum" where
  "totalPages processed pageSize =
     mathCeil (jsDivide (Fin (of_nat (length processed))) (Fin (of_int pageSize)))"

section \<open>Properties of pagination\<close>

lemma upto_as_upt: "[1..int m] = map (\<lambda>i. int i + 1) [0..<m]"
proof (induction m)
  case 0
  show ?case by simp
next
  case (Suc m)
  have "[1..int (Suc m)] = [1..int m] @ [int m + 1]"
    by (simp add: upto_rec2)
  with Suc show ?case by simp
qed

lemma slice_nat: "slice xs (int a) (int a + int k) = take k (drop a xs)"
proof (cases "a \<le> length xs")
  case True
  show ?thesis
  proof (cases "a + k \<le> length xs")
    case True
    with \<open>a \<le> length xs\<close> show ?thesis
      by (simp add: slice_def Let_def min_def)
  next
    case False
    then have "length xs - a \<le> k" by simp
    with False \<open>a \<le> length xs\<close> show ?thesis
      by (simp add: slice_def Let_def min_def nat_diff_distrib')
  qed
next
  case False
  then show ?thesis
    by (simp add: slice_def Let_def min_def)
qed

lemma page_as_take_drop: "paginatedData xs (int i + 1) (int k) = take k (drop (i * k) xs)"
proof -
  have "paginatedData xs (int i + 1) (int k) = slice xs (int (i * k)) (int (i * k) + int k)"
    by (simp add: paginatedData_def Let_def)
  then show ?thesis by (simp only: slice_nat)
qed

lemma pages_prefix:
  "concat (map (\<lambda>i. take k (drop (i * k) xs)) [0..<m]) = take (m * k) xs"
proof (induction m)
  case 0
  show ?case by simp
next
  case (Suc m)
  have "take (m * k + k) xs = take (m * k) xs @ take k (drop (m * k) xs)"
    by (rule take_add)
  with Suc show ?case by (simp add: add.commute)
qed

lemma ceil_cover:
  assumes "0 < k"
  shows "n \<le> nat \<lceil>(of_nat n :: rat) / of_nat k\<rceil> * k"
proof -
  define t where "t = \<lceil>(of_nat n :: rat) / of_nat k\<rceil>"
  have "(0::rat) \<le> of_nat n / of_nat k" by simp
  then have t0: "0 \<le> t"
    unfolding t_def using ceiling_mono [of "0::rat" "of_nat n / of_nat k"] by simp
  have "(of_nat n :: rat) / of_nat k \<le> of_int t"
    unfolding t_def by (rule le_of_int_ceiling)
  then have "(of_nat n :: rat) \<le> of_int t * of_nat k"
    using assms by (simp add: pos_divide_le_eq)
  also have "\<dots> = of_nat (nat t * k)"
    using t0 by simp
  finally have "n \<le> nat t * k"
    by (simp only: of_nat_le_iff)
  then show ?thesis by (simp add: t_def)
qed

lemma pages_cover:
  assumes "0 < k"
  shows "concat (map (\<lambda>p. paginatedData xs p (int k))
           [1..\<lceil>(of_nat (length xs) :: rat) / of_nat k\<rceil>]) = xs"
proof -
  define t where "t = \<lceil>(of_nat (length xs) :: rat) / of_nat k\<rceil>"
  have "(0::rat) \<le> of_nat (length xs) / of_nat k" by simp
  then have t0: "0 \<le> t"
    unfolding t_def using ceiling_mono [of "0::rat" "of_nat (length xs) / of_nat k"] by simp
  then have t: "t = int (nat t)" by simp
  have "concat (map (\<lambda>p. paginatedData xs p (int k)) [1..int (nat t)])
        = concat (map (\<lambda>i. take k (drop (i * k) xs)) [0..<nat t])"
    by (simp only: upto_as_upt map_map o_def page_as_take_drop)
  also have "\<dots> = take (nat t * k) xs"
    by (rule pages_prefix)
  also have "\<dots> = xs"
    using ceil_cover [OF assms, of "length xs"] by (simp add: t_def)
  finally show ?thesis
    using t by (simp add: t_def)
qed

text \<open>
  C9. With a positive number of rows per page, the number of pages is the integer
  \<open>\<lceil>total / pageSize\<rceil>\<close>, and the pages 1 to that number, one after the other, are
  exactly the processed sequence: nothing is missing, repeated or moved. With no rows
  there are zero pages and every page is empty.
\<close>

theorem pagination_coverage:
  assumes "0 < pageSize"
  shows "totalPages rows pageSize = Fin (of_int \<lceil>(of_nat (length rows) :: rat) / of_int pageSize\<rceil>)
         \<and> concat (map (\<lambda>p. paginatedData rows p pageSize)
              [1..\<lceil>(of_nat (length rows) :: rat) / of_int pageSize\<rceil>]) = rows
         \<and> totalPages ([] :: 'a list) pageSize = Fin 0
         \<and> paginatedData ([] :: 'a list) page pageSize = []"
proof -
  from assms obtain k where k: "pageSize = int k" "0 < k"
    by (metis zero_less_imp_eq_int)
  have "totalPages rows pageSize = Fin (of_int \<lceil>(of_nat (length rows) :: rat) / of_int pageSize\<rceil>)"
    using assms by (simp add: totalPages_def)
  moreover have "concat (map (\<lambda>p. paginatedData rows p pageSize)
              [1..\<lceil>(of_nat (length rows) :: rat) / of_int pageSize\<rceil>]) = rows"
    using pages_cover [OF k(2), of rows] k(1) by simp
  moreover have "totalPages ([] :: 'a list) pageSize = Fin 0"
    using assms by (simp add: totalPages_def)
  moreover have "paginatedData ([] :: 'a list) page pageSize = []"
    by (simp add: paginatedData_def slice_def)
  ultimately show ?thesis by blast
qed

theorem pagination_coverage_witness:
  "(0::int) < 2
   \<and> totalPages [''a'', ''b'', ''c''] 2 = Fin 2
   \<and> concat (map (\<lambda>p. paginatedData [''a'', ''b'', ''c''] p 2) [1..2]) = [''a'', ''b'', ''c'']
   \<and> paginatedData [''a'', ''b'', ''c''] 2 2 = [''c'']
   \<and> totalPages ([] :: string list) 2 = Fin 0
   \<and> paginatedData ([] :: string list) 1 2 = []"
proof -
  have c: "\<lceil>(of_nat (length [''a'', ''b'', ''c'']) :: rat) / of_int 2\<rceil> = 2"
    by (rule ceiling_unique) simp_all
  have "paginatedData [''a'', ''b'', ''c''] 2 2 = [''c'']"
    by (simp add: paginatedData_def slice_def)
  then show ?thesis
    using pagination_coverage [of 2 "[''a'', ''b'', ''c'']" 1] by (simp only: c) simp
qed

section \<open>Properties of the filter stages\<close>

lemmas parse_defs = parseFloat_def trimStart_def isWhiteSpace_def unsignedLiteral_def
  startsWith_def isDigit_def digitsVal_def exponentPart_def scale10_def

lemma set_insertSorted: "set (insertSorted cmp x ys) = insert x (set ys)"
  by (induction ys) auto

lemma set_arraySort: "set (arraySort cmp xs) = set xs"
  unfolding arraySort_def by (induction xs) (simp_all add: set_insertSorted)

lemma set_sortStage: "set (sortStage h fn dir cfg fd) = set fd"
  by (simp add: sortStage_def set_arraySort split: option.splits)

lemma set_applyColumnFilter: "set (applyColumnFilter ct fd e) \<subseteq> set fd"
  by (auto simp: applyColumnFilter_def Let_def split: column_filter.splits)

lemma set_column_filters: "set (foldl (applyColumnFilter ct) fd fs) \<subseteq> set fd"
proof (induction fs arbitrary: fd)
  case Nil
  show ?case by simp
next
  case (Cons e fs)
  have "set (foldl (applyColumnFilter ct) (applyColumnFilter ct fd e) fs)
        \<subseteq> set (applyColumnFilter ct fd e)"
    by (rule Cons.IH)
  also have "\<dots> \<subseteq> set fd"
    by (rule set_applyColumnFilter)
  finally show ?case by simp
qed

lemma processed_subset_sentinel:
  "set (processedData h data headers st)
   \<subseteq> set (sentinelStage (hideUnknownMacros st)
           (searchStage (searchQuery st) (visibleColumns st)
             (categoryStage headers (selectedCategories st) data)))"
  using set_column_filters by (simp add: processedData_def Let_def set_sortStage)

lemma applyColumnFilter_single:
  "set (applyColumnFilter ct fd e) = {r \<in> set fd. applyColumnFilter ct [r] e = [r]}"
  by (auto simp: applyColumnFilter_def Let_def split: column_filter.splits)

lemma column_filters_pass:
  "e \<in> set fs \<Longrightarrow> r \<in> set (foldl (applyColumnFilter ct) fd fs) \<Longrightarrow> applyColumnFilter ct [r] e = [r]"
proof (induction fs arbitrary: fd)
  case Nil
  then show ?case by simp
next
  case (Cons x fs)
  show ?case
  proof (cases "e = x")
    case True
    from Cons.prems(2) have "r \<in> set (applyColumnFilter ct fd x)"
      using set_column_filters [of ct "applyColumnFilter ct fd x" fs] by auto
    with True show ?thesis by (simp add: applyColumnFilter_single)
  next
    case False
    with Cons.prems have "e \<in> set fs" by simp
    with Cons.IH Cons.prems(2) show ?thesis by simp
  qed
qed

lemma processed_passes_filters:
  assumes "e \<in> set (filters st)" and "r \<in> set (processedData h data headers st)"
  shows "applyColumnFilter (columnTypes st) [r] e = [r]"
proof -
  from assms(2) have "data \<noteq> []" by (auto simp: processedData_def)
  with assms(2) have "r \<in> set (foldl (applyColumnFilter (columnTypes st))
      (sentinelStage (hideUnknownMacros st) (searchStage (searchQuery st) (visibleColumns st)
             (categoryStage headers (selectedCategories st) data))) (filters st))"
    by (simp add: processedData_def Let_def set_sortStage)
  with assms(1) show ?thesis by (rule column_filters_pass)
qed


subsection \<open>The category stage\<close>

text \<open>
  C2, as stated, fails for the empty Selection Set, which unselecting all categories
  gives: the stage is skipped, and a record whose path is not selected is retained.
\<close>

theorem category_stage_counterexample:
  "toggleAll exampleTree {''Drinks'', ''Drinks#Coffee'', ''Drinks#Tea'', ''Snacks''} = {}
   \<and> exposesCategory [''name'', ''category'']
   \<and> \<not> ([(''name'', ''tea''), (''category'', ''Drinks#Tea'')]
          \<in> set (categoryStage [''name'', ''category''] {}
                  [[(''name'', ''tea''), (''category'', ''Drinks#Tea'')]])
        \<longleftrightarrow> categoryPath [(''name'', ''tea''), (''category'', ''Drinks#Tea'')] \<in> {})"
proof -
  have "toggleAll exampleTree {''Drinks'', ''Drinks#Coffee'', ''Drinks#Tea'', ''Snacks''} = {}"
    by (simp add: toggleAll_def collectPaths_def exampleTree_def)
  then show ?thesis
    by (simp add: categoryStage_def exposesCategory_def normalizeHeader_def CATEGORY_COLUMN_def
        trim_def isWhiteSpace_def)
qed

text \<open>
  C2, amended. In a dataset that exposes a category column (a header that normalises to
  \<open>category\<close>), for every non-empty Selection Set the category stage retains exactly the
  records whose canonical path is in the set, in their order; with the empty Selection
  Set it retains every record. The canonical path is the empty string when the
  \<open>category\<close> cell is missing or empty, and else the cell split at \<open>#\<close>, each segment
  trimmed, and joined with \<open>#\<close>. No later stage brings a dropped record back: with a
  non-empty Selection Set every record of the pipeline's output has its path in the set.
\<close>

theorem category_stage_membership:
  assumes "exposesCategory headers"
  shows "(selected \<noteq> {} \<longrightarrow>
            categoryStage headers selected rows = filter (\<lambda>r. categoryPath r \<in> selected) rows
            \<and> (r \<in> set (categoryStage headers selected rows) \<longleftrightarrow> r \<in> set rows \<and> categoryPath r \<in> selected))
         \<and> (selected = {} \<longrightarrow> categoryStage headers selected rows = rows)
         \<and> (cell r CATEGORY_COLUMN = None \<or> cell r CATEGORY_COLUMN = Some [] \<longrightarrow> categoryPath r = [])
         \<and> (\<forall>v. cell r CATEGORY_COLUMN = Some v \<longrightarrow> categoryPath r = join ''#'' (map trim (split CHR ''#'' v)))
         \<and> (selectedCategories st \<noteq> {} \<and> r \<in> set (processedData h data headers st) \<longrightarrow>
              r \<in> set data \<and> categoryPath r \<in> selectedCategories st)"
proof -
  have p: "categoryPath r = join ''#'' (map trim (split CHR ''#'' v))" if "cell r CATEGORY_COLUMN = Some v" for v
    using that by (cases v) (simp_all add: categoryPath_def trim_def)
  have "set (processedData h data headers st) \<subseteq> set (categoryStage headers (selectedCategories st) data)"
    using processed_subset_sentinel [of h data headers st]
    by (auto simp: sentinelStage_def searchStage_def Let_def split: if_splits)
  then have e: "selectedCategories st \<noteq> {} \<and> r \<in> set (processedData h data headers st) \<longrightarrow>
              r \<in> set data \<and> categoryPath r \<in> selectedCategories st"
  proof (intro impI, elim conjE)
    assume sub: "set (processedData h data headers st)
                   \<subseteq> set (categoryStage headers (selectedCategories st) data)"
      and ne: "selectedCategories st \<noteq> {}" and r: "r \<in> set (processedData h data headers st)"
    from ne assms have "categoryStage headers (selectedCategories st) data
        = filter (\<lambda>r. categoryPath r \<in> selectedCategories st) data"
      by (simp add: categoryStage_def)
    with sub r show "r \<in> set data \<and> categoryPath r \<in> selectedCategories st"
      by auto
  qed
  from p e show ?thesis
    using assms by (auto simp: categoryStage_def categoryPath_def)
qed

theorem category_stage_membership_witness:
  "exposesCategory [''name'', ''category'']
   \<and> categoryStage [''name'', ''category''] {''Drinks#Tea'', ''''}
        [[(''name'', ''tea''), (''category'', '' Drinks # Tea '')],
         [(''name'', ''chips''), (''category'', ''Snacks'')],
         [(''name'', ''misc''), (''category'', '''')]]
      = [[(''name'', ''tea''), (''category'', '' Drinks # Tea '')], [(''name'', ''misc''), (''category'', '''')]]
   \<and> categoryStage [''name'', ''category''] {''Snacks''} [[(''name'', ''misc''), (''category'', '''')]] = []
   \<and> selectedCategories (initialViewer\<lparr>selectedCategories := {''Snacks''}\<rparr>) \<noteq> {}
   \<and> processedData quietHost
        [[(''name'', ''tea''), (''category'', '' Drinks # Tea '')], [(''name'', ''chips''), (''category'', ''Snacks'')]]
        [''name'', ''category''] (initialViewer\<lparr>selectedCategories := {''Snacks''}\<rparr>)
      = [[(''name'', ''chips''), (''category'', ''Snacks'')]]
   \<and> categoryPath [(''name'', ''chips''), (''category'', ''Snacks'')]
       \<in> selectedCategories (initialViewer\<lparr>selectedCategories := {''Snacks''}\<rparr>)"
proof -
  let ?st = "initialViewer\<lparr>selectedCategories := {''Snacks''}\<rparr>"
  let ?data = "[[(''name'', ''tea''), (''category'', '' Drinks # Tea '')], [(''name'', ''chips''), (''category'', ''Snacks'')]]"
  have h: "exposesCategory [''name'', ''category'']"
    by (simp add: exposesCategory_def normalizeHeader_def CATEGORY_COLUMN_def trim_def isWhiteSpace_def)
  have p1: "categoryPath [(''name'', ''tea''), (''category'', '' Drinks # Tea '')] = ''Drinks#Tea''"
    by (simp add: categoryPath_def cell_def CATEGORY_COLUMN_def trim_def isWhiteSpace_def)
  have p2: "categoryPath [(''name'', ''chips''), (''category'', ''Snacks'')] = ''Snacks''"
    by (simp add: categoryPath_def cell_def CATEGORY_COLUMN_def trim_def isWhiteSpace_def)
  have p3: "categoryPath [(''name'', ''misc''), (''category'', '''')] = ''''"
    by (simp add: categoryPath_def cell_def CATEGORY_COLUMN_def)
  have n1: "{''Drinks#Tea'', ''''} \<noteq> ({} :: string set)" by simp
  have n2: "{''Snacks''} \<noteq> ({} :: string set)" by simp
  from category_stage_membership [OF h, of "{''Drinks#Tea'', ''''}"
      "[[(''name'', ''tea''), (''category'', '' Drinks # Tea '')],
         [(''name'', ''chips''), (''category'', ''Snacks'')],
         [(''name'', ''misc''), (''category'', '''')]]"] n1
  have a: "categoryStage [''name'', ''category''] {''Drinks#Tea'', ''''}
        [[(''name'', ''tea''), (''category'', '' Drinks # Tea '')],
         [(''name'', ''chips''), (''category'', ''Snacks'')],
         [(''name'', ''misc''), (''category'', '''')]]
      = filter (\<lambda>r. categoryPath r \<in> {''Drinks#Tea'', ''''}) [[(''name'', ''tea''), (''category'', '' Drinks # Tea '')],
         [(''name'', ''chips''), (''category'', ''Snacks'')],
         [(''name'', ''misc''), (''category'', '''')]]"
    by blast
  from category_stage_membership [OF h, of "{''Snacks''}" "[[(''name'', ''misc''), (''category'', '''')]]"] n2
  have b: "categoryStage [''name'', ''category''] {''Snacks''} [[(''name'', ''misc''), (''category'', '''')]]
     = filter (\<lambda>r. categoryPath r \<in> {''Snacks''}) [[(''name'', ''misc''), (''category'', '''')]]"
    by blast
  have ne: "selectedCategories ?st \<noteq> {}"
    by simp
  have pd: "processedData quietHost ?data [''name'', ''category''] ?st
      = [[(''name'', ''chips''), (''category'', ''Snacks'')]]"
    by (simp add: processedData_def categoryStage_def h p1 p2 searchStage_def sentinelStage_def
        sortStage_def buildFormulaFn_def initialViewer_def trim_def cell_def strictEq_def parse_defs)
  then have "[(''name'', ''chips''), (''category'', ''Snacks'')]
      \<in> set (processedData quietHost ?data [''name'', ''category''] ?st)"
    by simp
  with category_stage_membership [OF h, of "{}" "[]" "[(''name'', ''chips''), (''category'', ''Snacks'')]"
      ?st quietHost ?data] ne
  have c: "categoryPath [(''name'', ''chips''), (''category'', ''Snacks'')] \<in> selectedCategories ?st"
    by blast
  have ab: "categoryStage [''name'', ''category''] {''Drinks#Tea'', ''''}
        [[(''name'', ''tea''), (''category'', '' Drinks # Tea '')],
         [(''name'', ''chips''), (''category'', ''Snacks'')],
         [(''name'', ''misc''), (''category'', '''')]]
      = [[(''name'', ''tea''), (''category'', '' Drinks # Tea '')], [(''name'', ''misc''), (''category'', '''')]]
   \<and> categoryStage [''name'', ''category''] {''Snacks''} [[(''name'', ''misc''), (''category'', '''')]] = []"
    by (simp add: a b p1 p2 p3)
  show ?thesis
    using h ab ne pd c by blast
qed

subsection \<open>The sentinel stage and the numeric filters\<close>




text \<open>
  The equals filter. A numeric equals filter keeps a record exactly when the parsed cell is
  strictly equal to the filter value: for a finite value that is equality of the numbers,
  with no tolerance, and a cell that parses to NaN never matches, whatever the value (nor
  does it satisfy a range filter through a bound that the range filter applies). On a
  numeric column the filter keeps exactly the matching records, and every record of the
  pipeline's output matches every equals filter set on a numeric column. For the price
  cells \<open>10\<close>, \<open>10.00\<close> and \<open>10.5\<close> the filter \<open>price equals 10\<close> leaves the first
  two records.
\<close>

lemma numeric_equals_filter:
  "(equalsMatches column v r \<longleftrightarrow> strictEq (parseFloat (toStringJS (cell r column))) v)
   \<and> (equalsMatches column (Fin q) r \<longleftrightarrow> parseFloat (toStringJS (cell r column)) = Fin q)
   \<and> (isNaN (parseFloat (toStringJS (cell r column))) \<longrightarrow> \<not> equalsMatches column v r)
   \<and> (isNaN (parseFloat (toStringJS (cell r column))) \<and> truthy m \<longrightarrow>
        \<not> rangeMatches column (Some m) mx r \<and> \<not> rangeMatches column mn (Some m) r)
   \<and> (columnTypes st column = Some TNumber \<longrightarrow>
        applyColumnFilter (columnTypes st) rows (column, Equals v) = filter (equalsMatches column v) rows)
   \<and> (columnTypes st column = Some TNumber \<and> (column, Equals v) \<in> set (filters st)
        \<and> r \<in> set (processedData h data headers st) \<longrightarrow>
        strictEq (parseFloat (toStringJS (cell r column))) v)
   \<and> processedData h [[(''price'', ''10'')], [(''price'', ''10.00'')], [(''price'', ''10.5'')]] [''price'']
        (initialViewer\<lparr>columnTypes := deriveColumnTypes [''price''],
                         filters := [(''price'', Equals (Fin 10))]\<rparr>)
      = [[(''price'', ''10'')], [(''price'', ''10.00'')]]"
proof -
  have a: "equalsMatches column v r \<longleftrightarrow> strictEq (parseFloat (toStringJS (cell r column))) v" for v
    by (simp add: equalsMatches_def)
  have b: "equalsMatches column (Fin q) r \<longleftrightarrow> parseFloat (toStringJS (cell r column)) = Fin q"
    by (auto simp: equalsMatches_def strictEq_def Let_def)
  have c: "isNaN (parseFloat (toStringJS (cell r column))) \<longrightarrow> \<not> equalsMatches column v r"
    by (simp add: equalsMatches_def strictEq_def Let_def)
  have g: "isNaN (parseFloat (toStringJS (cell r column))) \<and> truthy m \<longrightarrow>
        \<not> rangeMatches column (Some m) mx r \<and> \<not> rangeMatches column mn (Some m) r"
    by (cases "parseFloat (toStringJS (cell r column))"; cases m)
       (simp_all add: rangeMatches_def jsLe_def Let_def)
  have d: "columnTypes st column = Some TNumber \<longrightarrow>
        applyColumnFilter (columnTypes st) rows (column, Equals v) = filter (equalsMatches column v) rows"
    by (simp add: applyColumnFilter_def)
  have e: "columnTypes st column = Some TNumber \<and> (column, Equals v) \<in> set (filters st)
        \<and> r \<in> set (processedData h data headers st) \<longrightarrow>
        strictEq (parseFloat (toStringJS (cell r column))) v"
  proof (intro impI, elim conjE)
    assume t: "columnTypes st column = Some TNumber"
      and f: "(column, Equals v) \<in> set (filters st)"
      and r: "r \<in> set (processedData h data headers st)"
    from processed_passes_filters [OF f r] t have "equalsMatches column v r"
      by (simp add: applyColumnFilter_def split: if_splits)
    then show "strictEq (parseFloat (toStringJS (cell r column))) v"
      by (simp add: a)
  qed
  have t: "deriveColumnTypes [''price''] ''price'' = Some TNumber"
    by (simp add: deriveColumnTypes_def normalizeHeader_def trim_def isWhiteSpace_def NUMERIC_COLUMNS_def)
  have f: "processedData h [[(''price'', ''10'')], [(''price'', ''10.00'')], [(''price'', ''10.5'')]] [''price'']
        (initialViewer\<lparr>columnTypes := deriveColumnTypes [''price''],
                         filters := [(''price'', Equals (Fin 10))]\<rparr>)
      = [[(''price'', ''10'')], [(''price'', ''10.00'')]]"
    by (simp add: processedData_def categoryStage_def searchStage_def sentinelStage_def
        sortStage_def buildFormulaFn_def initialViewer_def trim_def cell_def strictEq_def
        applyColumnFilter_def equalsMatches_def t parse_defs)
  show ?thesis
    by (intro conjI a b c g d e f)
qed

lemma numeric_equals_filter_example:
  "isNaN (parseFloat (toStringJS (cell [(''price'', ''n/a'')] ''price'')))
   \<and> \<not> equalsMatches ''price'' (Fin 10) [(''price'', ''n/a'')]
   \<and> equalsMatches ''price'' (Fin 10) [(''price'', ''10.00'')]
   \<and> \<not> equalsMatches ''price'' (Fin 10) [(''price'', ''10.000001'')]
   \<and> \<not> rangeMatches ''price'' (Some (Fin 5)) None [(''price'', ''n/a'')]
   \<and> applyColumnFilter (columnTypes (initialViewer\<lparr>columnTypes := deriveColumnTypes [''price'']\<rparr>))
        [[(''price'', ''n/a'')], [(''price'', ''10'')]] (''price'', Equals (Fin 10)) = [[(''price'', ''10'')]]"
proof -
  let ?st = "initialViewer\<lparr>columnTypes := deriveColumnTypes [''price'']\<rparr>"
  have n: "isNaN (parseFloat (toStringJS (cell [(''price'', ''n/a'')] ''price'')))"
    by (simp add: cell_def parse_defs)
  have t: "columnTypes ?st ''price'' = Some TNumber"
    by (simp add: deriveColumnTypes_def normalizeHeader_def trim_def isWhiteSpace_def NUMERIC_COLUMNS_def)
  have p1: "parseFloat (toStringJS (cell [(''price'', ''10.00'')] ''price'')) = Fin 10"
    by (simp add: cell_def parse_defs)
  have p2: "parseFloat (toStringJS (cell [(''price'', ''10.000001'')] ''price'')) \<noteq> Fin 10"
    by (simp add: cell_def parse_defs)
  have p3: "parseFloat (toStringJS (cell [(''price'', ''10'')] ''price'')) = Fin 10"
    by (simp add: cell_def parse_defs)
  have m: "truthy (Fin 5)" by simp
  note th = numeric_equals_filter [where column = "''price''" and v = "Fin 10" and q = 10
      and m = "Fin 5" and mn = None and mx = None and st = ?st]
  from th [where r = "[(''price'', ''n/a'')]"] n m
  have 1: "\<not> equalsMatches ''price'' (Fin 10) [(''price'', ''n/a'')]"
    and 6: "\<not> rangeMatches ''price'' (Some (Fin 5)) None [(''price'', ''n/a'')]"
    by blast+
  from th [where r = "[(''price'', ''10.00'')]"] p1
  have 2: "equalsMatches ''price'' (Fin 10) [(''price'', ''10.00'')]" by blast
  from th [where r = "[(''price'', ''10.000001'')]"] p2
  have 3: "\<not> equalsMatches ''price'' (Fin 10) [(''price'', ''10.000001'')]" by blast
  from th [where r = "[(''price'', ''10'')]"] p3
  have 4: "equalsMatches ''price'' (Fin 10) [(''price'', ''10'')]" by blast
  from th [where r = "[]" and rows = "[[(''price'', ''n/a'')], [(''price'', ''10'')]]"] t
  have "applyColumnFilter (columnTypes ?st) [[(''price'', ''n/a'')], [(''price'', ''10'')]] (''price'', Equals (Fin 10))
        = filter (equalsMatches ''price'' (Fin 10)) [[(''price'', ''n/a'')], [(''price'', ''10'')]]"
    by blast
  with 1 4 have 5: "applyColumnFilter (columnTypes ?st) [[(''price'', ''n/a'')], [(''price'', ''10'')]] (''price'', Equals (Fin 10))
        = [[(''price'', ''10'')]]"
    by simp
  show ?thesis
    by (intro conjI n 1 2 3 6 5)
qed

text \<open>
  C3 fails on the code for a bound equal to 0. Typing \<open>0\<close> as the minimum of a range gives
  the filter with \<open>min = 0\<close>; the record whose cell is \<open>-5\<close> parses to \<open>-5\<close>, which is
  not \<open>\<ge> 0\<close>, and yet it satisfies the filter and stays in the output, because the
  test \<^verbatim>\<open>!min\<close> takes the bound 0 for an unset bound. The lemma after it states which
  bounds the range filter does apply.
\<close>

theorem range_zero_bound_ignored:
  "handleNumberFilterChange (RangeInput (Typed ''0'') (Kept None)) = Some (Range (Some (Fin 0)) (Some NaN))
   \<and> parseFloat (toStringJS (cell [(''price'', ''-5'')] ''price'')) = Fin (- 5)
   \<and> \<not> jsGe (Fin (- 5)) (Fin 0)
   \<and> rangeMatches ''price'' (Some (Fin 0)) (Some NaN) [(''price'', ''-5'')]
   \<and> rangeMatches ''price'' (Some (Fin 0)) None [(''price'', ''-5'')]
   \<and> processedData h [[(''price'', ''-5'')], [(''price'', ''7'')]] [''price'']
        (initialViewer\<lparr>columnTypes := deriveColumnTypes [''price''],
                         filters := [(''price'', Range (Some (Fin 0)) None)]\<rparr>)
      = [[(''price'', ''-5'')], [(''price'', ''7'')]]"
proof -
  have t: "deriveColumnTypes [''price''] ''price'' = Some TNumber"
    by (simp add: deriveColumnTypes_def normalizeHeader_def trim_def isWhiteSpace_def NUMERIC_COLUMNS_def)
  have a: "handleNumberFilterChange (RangeInput (Typed ''0'') (Kept None)) = Some (Range (Some (Fin 0)) (Some NaN))"
    by (simp add: boundOf_def parse_defs)
  have b: "parseFloat (toStringJS (cell [(''price'', ''-5'')] ''price'')) = Fin (- 5)"
    by (simp add: cell_def parse_defs)
  have c: "rangeMatches ''price'' (Some (Fin 0)) (Some NaN) [(''price'', ''-5'')]"
    by (simp add: rangeMatches_def)
  have d: "rangeMatches ''price'' (Some (Fin 0)) None [(''price'', ''-5'')]"
    by (simp add: rangeMatches_def)
  have e: "processedData h [[(''price'', ''-5'')], [(''price'', ''7'')]] [''price'']
        (initialViewer\<lparr>columnTypes := deriveColumnTypes [''price''],
                         filters := [(''price'', Range (Some (Fin 0)) None)]\<rparr>)
      = [[(''price'', ''-5'')], [(''price'', ''7'')]]"
    by (simp add: processedData_def categoryStage_def searchStage_def sentinelStage_def
        sortStage_def buildFormulaFn_def initialViewer_def trim_def cell_def strictEq_def
        applyColumnFilter_def rangeMatches_def t parse_defs)
  from a b c d e show ?thesis by simp
qed

theorem range_zero_bound_ignored_witness:
  "handleNumberFilterChange (RangeInput (Typed ''0'') (Kept None)) = Some (Range (Some (Fin 0)) (Some NaN))
   \<and> rangeMatches ''price'' (Some (Fin 0)) (Some NaN) [(''price'', ''-5'')]
   \<and> processedData quietHost [[(''price'', ''-5'')], [(''price'', ''7'')]] [''price'']
        (initialViewer\<lparr>columnTypes := deriveColumnTypes [''price''],
                         filters := [(''price'', Range (Some (Fin 0)) None)]\<rparr>)
      = [[(''price'', ''-5'')], [(''price'', ''7'')]]"
  using range_zero_bound_ignored [of quietHost] by blast

lemma rangeMatches_effective:
  "rangeMatches column mn mx r \<longleftrightarrow>
     (\<forall>m. mn = Some m \<and> truthy m \<longrightarrow> jsGe (parseFloat (toStringJS (cell r column))) m)
     \<and> (\<forall>m. mx = Some m \<and> truthy m \<longrightarrow> jsLe (parseFloat (toStringJS (cell r column))) m)"
  by (auto simp: rangeMatches_def Let_def split: option.splits)

text \<open>
  C8 fails on the code in its fail-closed part, for a range filter whose set bound is 0.
  The equals part holds as stated (the lemmas on the equals filter above). Typing \<open>0\<close> as
  the minimum of a range on \<open>price\<close> stores the filter with \<open>min = 0\<close> and \<open>max = NaN\<close>;
  the cell \<open>n/a\<close> does not parse as a number, and yet the record satisfies this numeric
  filter and stays in the output of the pipeline, because the tests \<^verbatim>\<open>!min\<close> and
  \<^verbatim>\<open>!max\<close> switch both comparisons off.
\<close>

theorem nan_cell_passes_zero_range:
  "handleNumberFilterChange (RangeInput (Typed ''0'') (Kept None)) = Some (Range (Some (Fin 0)) (Some NaN))
   \<and> isNaN (parseFloat (toStringJS (cell [(''price'', ''n/a'')] ''price'')))
   \<and> \<not> jsGe (parseFloat (toStringJS (cell [(''price'', ''n/a'')] ''price''))) (Fin 0)
   \<and> rangeMatches ''price'' (Some (Fin 0)) (Some NaN) [(''price'', ''n/a'')]
   \<and> applyColumnFilter (deriveColumnTypes [''price'']) [[(''price'', ''n/a'')], [(''price'', ''7'')]]
        (''price'', Range (Some (Fin 0)) (Some NaN))
      = [[(''price'', ''n/a'')], [(''price'', ''7'')]]
   \<and> processedData h [[(''price'', ''n/a'')], [(''price'', ''7'')]] [''price'']
        (initialViewer\<lparr>columnTypes := deriveColumnTypes [''price''],
                         filters := [(''price'', Range (Some (Fin 0)) (Some NaN))]\<rparr>)
      = [[(''price'', ''n/a'')], [(''price'', ''7'')]]"
proof -
  have t: "deriveColumnTypes [''price''] ''price'' = Some TNumber"
    by (simp add: deriveColumnTypes_def normalizeHeader_def trim_def isWhiteSpace_def NUMERIC_COLUMNS_def)
  have a: "handleNumberFilterChange (RangeInput (Typed ''0'') (Kept None)) = Some (Range (Some (Fin 0)) (Some NaN))"
    by (simp add: boundOf_def parse_defs)
  have n: "parseFloat (toStringJS (cell [(''price'', ''n/a'')] ''price'')) = NaN"
    by (simp add: cell_def parse_defs)
  have c: "rangeMatches ''price'' (Some (Fin 0)) (Some NaN) [(''price'', ''n/a'')]"
    by (simp add: rangeMatches_def)
  have d: "applyColumnFilter (deriveColumnTypes [''price'']) [[(''price'', ''n/a'')], [(''price'', ''7'')]]
        (''price'', Range (Some (Fin 0)) (Some NaN))
      = [[(''price'', ''n/a'')], [(''price'', ''7'')]]"
    by (simp add: applyColumnFilter_def rangeMatches_def Let_def t)
  have e: "processedData h [[(''price'', ''n/a'')], [(''price'', ''7'')]] [''price'']
        (initialViewer\<lparr>columnTypes := deriveColumnTypes [''price''],
                         filters := [(''price'', Range (Some (Fin 0)) (Some NaN))]\<rparr>)
      = [[(''price'', ''n/a'')], [(''price'', ''7'')]]"
    by (simp add: processedData_def categoryStage_def searchStage_def sentinelStage_def
        sortStage_def buildFormulaFn_def initialViewer_def trim_def cell_def strictEq_def
        applyColumnFilter_def rangeMatches_def t parse_defs)
  from a n c d e show ?thesis by simp
qed

theorem nan_cell_passes_zero_range_witness:
  "handleNumberFilterChange (RangeInput (Typed ''0'') (Kept None)) = Some (Range (Some (Fin 0)) (Some NaN))
   \<and> isNaN (parseFloat (toStringJS (cell [(''price'', ''n/a'')] ''price'')))
   \<and> rangeMatches ''price'' (Some (Fin 0)) (Some NaN) [(''price'', ''n/a'')]
   \<and> processedData quietHost [[(''price'', ''n/a'')], [(''price'', ''7'')]] [''price'']
        (initialViewer\<lparr>columnTypes := deriveColumnTypes [''price''],
                         filters := [(''price'', Range (Some (Fin 0)) (Some NaN))]\<rparr>)
      = [[(''price'', ''n/a'')], [(''price'', ''7'')]]"
  using nan_cell_passes_zero_range [of quietHost] by blast


section \<open>Properties of formula validation\<close>

text \<open>
  The typed path. When the trimmed formula input quotes a column that is not among the
  headers, \<open>validateAndApplyFormula\<close> rejects the formula with the unknown-column error:
  the result does not depend on the host's compiler (it is not reached), and apart from
  the error toast the state is the one before, so the applied formula, the formula sort
  direction and the column sort stay.
\<close>

lemma unknown_column_rejected:
  assumes "\<exists>col \<in> set (quotedRefs (trim (formulaInput st))). col \<notin> set headers"
  shows "validateAndApplyFormula h headers data st
           = addToast \<lparr>toastType = Error, title = ''Unknown column(s)'',
                       message = Some (join '', ''
                         (filter (\<lambda>col. col \<notin> set headers) (quotedRefs (trim (formulaInput st)))))\<rparr> st
         \<and> validateAndApplyFormula h headers data st = validateAndApplyFormula h' headers data st
         \<and> (validateAndApplyFormula h headers data st)\<lparr>toasts := toasts st\<rparr> = st
         \<and> appliedFormula (validateAndApplyFormula h headers data st) = appliedFormula st
         \<and> formulaSortDir (validateAndApplyFormula h headers data st) = formulaSortDir st
         \<and> sortConfig (validateAndApplyFormula h headers data st) = sortConfig st"
proof -
  let ?formula = "trim (formulaInput st)"
  from assms have refs: "quotedRefs ?formula \<noteq> []" by auto
  have nonempty: "?formula \<noteq> []"
  proof
    assume "?formula = []"
    then have "quotedRefs ?formula = []" by (simp add: quotedRefs_def)
    with refs show False by simp
  qed
  from assms have missing: "filter (\<lambda>col. col \<notin> set headers) (quotedRefs ?formula) \<noteq> []"
    by (auto simp: filter_empty_conv)
  have r: "\<And>g. validateAndApplyFormula g headers data st
           = addToast \<lparr>toastType = Error, title = ''Unknown column(s)'',
                       message = Some (join '', ''
                         (filter (\<lambda>col. col \<notin> set headers) (quotedRefs ?formula)))\<rparr> st"
    using nonempty missing by (simp add: validateAndApplyFormula_def Let_def)
  show ?thesis
    by (simp add: r addToast_def)
qed

lemma unknown_column_rejected_example:
  "(\<exists>col \<in> set (quotedRefs (trim (formulaInput
        (initialViewer\<lparr>formulaInput := '' \"kcal\"/\"price\" '', appliedFormula := ''\"price\"'',
           formulaSortDir := Some Desc\<rparr>)))). col \<notin> set [''name'', ''price''])
   \<and> validateAndApplyFormula quietHost [''name'', ''price''] [[(''name'', ''a''), (''price'', ''3'')]]
        (initialViewer\<lparr>formulaInput := '' \"kcal\"/\"price\" '', appliedFormula := ''\"price\"'',
           formulaSortDir := Some Desc\<rparr>)
     = initialViewer\<lparr>formulaInput := '' \"kcal\"/\"price\" '', appliedFormula := ''\"price\"'',
           formulaSortDir := Some Desc,
           toasts := [\<lparr>toastType = Error, title = ''Unknown column(s)'', message = Some ''kcal''\<rparr>]\<rparr>"
proof -
  let ?st = "initialViewer\<lparr>formulaInput := '' \"kcal\"/\"price\" '', appliedFormula := ''\"price\"'',
           formulaSortDir := Some Desc\<rparr>"
  have t: "trim (formulaInput ?st) = ''\"kcal\"/\"price\"''"
    by (simp add: trim_def isWhiteSpace_def)
  have q: "quotedRefs ''\"kcal\"/\"price\"'' = [''kcal'', ''price'']"
    by (simp add: quotedRefs_def notQuote_def)
  have h: "\<exists>col \<in> set (quotedRefs (trim (formulaInput ?st))). col \<notin> set [''name'', ''price'']"
    by (simp only: t q) simp
  from unknown_column_rejected [OF h, of quietHost "[[(''name'', ''a''), (''price'', ''3'')]]" quietHost]
  have "validateAndApplyFormula quietHost [''name'', ''price''] [[(''name'', ''a''), (''price'', ''3'')]] ?st
        = addToast \<lparr>toastType = Error, title = ''Unknown column(s)'',
                       message = Some (join '', ''
                         (filter (\<lambda>col. col \<notin> set [''name'', ''price'']) (quotedRefs (trim (formulaInput ?st)))))\<rparr> ?st"
    by blast
  then have "validateAndApplyFormula quietHost [''name'', ''price''] [[(''name'', ''a''), (''price'', ''3'')]] ?st
        = initialViewer\<lparr>formulaInput := '' \"kcal\"/\"price\" '', appliedFormula := ''\"price\"'',
           formulaSortDir := Some Desc,
           toasts := [\<lparr>toastType = Error, title = ''Unknown column(s)'', message = Some ''kcal''\<rparr>]\<rparr>"
    by (simp only: t q) (simp add: addToast_def initialViewer_def)
  with h show ?thesis by blast
qed

text \<open>
  C6 fails on the code for a formula applied from the history. The entry \<open>"kcal"/"price"\<close>
  (in the history since it was applied, say with a dataset that has both columns) quotes
  \<open>kcal\<close>, which is not among the headers \<open>name\<close>, \<open>price\<close>. Typed into the input it is
  rejected and the applied formula \<open>"price"\<close> stays; clicked in the history it is applied
  with no check: it replaces the applied formula, whatever the formula and the headers
  are, and the formula sort that is active goes on with it.
\<close>

theorem history_applies_unknown_column:
  "addFormulaToHistory ''\"kcal\"/\"price\"'' [] = [''\"kcal\"/\"price\"'']
   \<and> quotedRefs ''\"kcal\"/\"price\"'' = [''kcal'', ''price'']
   \<and> ''kcal'' \<notin> set [''name'', ''price'']
   \<and> appliedFormula (validateAndApplyFormula h [''name'', ''price''] data
         (initialViewer\<lparr>formulaInput := ''\"kcal\"/\"price\"'', appliedFormula := ''\"price\"'',
            formulaSortDir := Some Desc\<rparr>)) = ''\"price\"''
   \<and> applyFromHistory ''\"kcal\"/\"price\"''
         (initialViewer\<lparr>appliedFormula := ''\"price\"'', formulaSortDir := Some Desc\<rparr>)
       = initialViewer\<lparr>formulaInput := ''\"kcal\"/\"price\"'', appliedFormula := ''\"kcal\"/\"price\"'',
           formulaSortDir := Some Desc,
           toasts := [\<lparr>toastType = Success, title = ''Formula applied'', message = None\<rparr>]\<rparr>
   \<and> appliedFormula (applyFromHistory f st) = f
   \<and> formulaSortDir (applyFromHistory f st) = formulaSortDir st
   \<and> sortConfig (applyFromHistory f st) = sortConfig st"
proof -
  let ?st = "initialViewer\<lparr>formulaInput := ''\"kcal\"/\"price\"'', appliedFormula := ''\"price\"'',
            formulaSortDir := Some Desc\<rparr>"
  have a: "addFormulaToHistory ''\"kcal\"/\"price\"'' [] = [''\"kcal\"/\"price\"'']"
    by (simp add: addFormulaToHistory_def)
  have t: "trim (formulaInput ?st) = ''\"kcal\"/\"price\"''"
    by (simp add: trim_def isWhiteSpace_def)
  have q: "quotedRefs ''\"kcal\"/\"price\"'' = [''kcal'', ''price'']"
    by (simp add: quotedRefs_def notQuote_def)
  have k: "''kcal'' \<notin> set [''name'', ''price'']"
    by simp
  have m: "\<exists>col \<in> set (quotedRefs (trim (formulaInput ?st))). col \<notin> set [''name'', ''price'']"
    by (simp only: t q) simp
  from unknown_column_rejected [OF m, of h data h]
  have "appliedFormula (validateAndApplyFormula h [''name'', ''price''] data ?st) = appliedFormula ?st"
    by blast
  then have v: "appliedFormula (validateAndApplyFormula h [''name'', ''price''] data ?st) = ''\"price\"''"
    by simp
  have c: "applyFromHistory ''\"kcal\"/\"price\"''
         (initialViewer\<lparr>appliedFormula := ''\"price\"'', formulaSortDir := Some Desc\<rparr>)
       = initialViewer\<lparr>formulaInput := ''\"kcal\"/\"price\"'', appliedFormula := ''\"kcal\"/\"price\"'',
           formulaSortDir := Some Desc,
           toasts := [\<lparr>toastType = Success, title = ''Formula applied'', message = None\<rparr>]\<rparr>"
    by (simp add: applyFromHistory_def addToast_def initialViewer_def)
  have g: "appliedFormula (applyFromHistory f st) = f"
    "formulaSortDir (applyFromHistory f st) = formulaSortDir st"
    "sortConfig (applyFromHistory f st) = sortConfig st"
    by (simp_all add: applyFromHistory_def addToast_def)
  show ?thesis
    by (intro conjI a q k v c g)
qed

theorem history_applies_unknown_column_witness:
  "appliedFormula (validateAndApplyFormula quietHost [''name'', ''price''] [[(''name'', ''a''), (''price'', ''3'')]]
         (initialViewer\<lparr>formulaInput := ''\"kcal\"/\"price\"'', appliedFormula := ''\"price\"'',
            formulaSortDir := Some Desc\<rparr>)) = ''\"price\"''
   \<and> appliedFormula (applyFromHistory ''\"kcal\"/\"price\"''
         (initialViewer\<lparr>appliedFormula := ''\"price\"'', formulaSortDir := Some Desc\<rparr>))
       = ''\"kcal\"/\"price\"''
   \<and> formulaSortDir (applyFromHistory ''\"kcal\"/\"price\"''
         (initialViewer\<lparr>appliedFormula := ''\"price\"'', formulaSortDir := Some Desc\<rparr>))
       = Some Desc"
proof -
  note th = history_applies_unknown_column [of quietHost "[[(''name'', ''a''), (''price'', ''3'')]]"
      "''\"kcal\"/\"price\"''" "initialViewer\<lparr>appliedFormula := ''\"price\"'', formulaSortDir := Some Desc\<rparr>"]
  from th have 1: "appliedFormula (validateAndApplyFormula quietHost [''name'', ''price'']
         [[(''name'', ''a''), (''price'', ''3'')]]
         (initialViewer\<lparr>formulaInput := ''\"kcal\"/\"price\"'', appliedFormula := ''\"price\"'',
            formulaSortDir := Some Desc\<rparr>)) = ''\"price\"''"
    by blast
  from th have 2: "appliedFormula (applyFromHistory ''\"kcal\"/\"price\"''
         (initialViewer\<lparr>appliedFormula := ''\"price\"'', formulaSortDir := Some Desc\<rparr>))
       = ''\"kcal\"/\"price\"''"
    by blast
  from th have "formulaSortDir (applyFromHistory ''\"kcal\"/\"price\"''
         (initialViewer\<lparr>appliedFormula := ''\"price\"'', formulaSortDir := Some Desc\<rparr>))
       = formulaSortDir (initialViewer\<lparr>appliedFormula := ''\"price\"'', formulaSortDir := Some Desc\<rparr>)"
    by blast
  then have 3: "formulaSortDir (applyFromHistory ''\"kcal\"/\"price\"''
         (initialViewer\<lparr>appliedFormula := ''\"price\"'', formulaSortDir := Some Desc\<rparr>))
       = Some Desc"
    by simp
  show ?thesis
    by (intro conjI 1 2 3)
qed

text \<open>
  C5 fails on the code for a divisor such as \<open>0.5\<close>: the test looks for a zero that is not
  followed by a digit, and the point of \<open>0.5\<close> is not a digit, so the formula \<open>"x"/0.5\<close>
  is rejected as a division by the constant 0 and the state stays as it was.
\<close>

theorem half_divisor_rejected:
  "formulaWithoutQuotes ''\"x\"/0.5'' = ''/0.5''
   \<and> divisionByZeroTest ''/0.5''
   \<and> validateAndApplyFormula h [''x''] data (initialViewer\<lparr>formulaInput := ''\"x\"/0.5''\<rparr>)
     = initialViewer\<lparr>formulaInput := ''\"x\"/0.5'',
         toasts := [\<lparr>toastType = Error, title = ''Division by zero'',
                     message = Some ''Formula contains division by 0 constant''\<rparr>]\<rparr>"
proof -
  have t: "trim ''\"x\"/0.5'' = ''\"x\"/0.5''"
    by (simp add: trim_def isWhiteSpace_def)
  have q: "quotedRefs ''\"x\"/0.5'' = [''x'']"
    by (simp add: quotedRefs_def notQuote_def)
  have w: "formulaWithoutQuotes ''\"x\"/0.5'' = ''/0.5''"
    by (simp add: formulaWithoutQuotes_def notQuote_def)
  have z: "divisionByZeroTest ''/0.5''"
    by (simp add: zeroFollows_def isWhiteSpace_def isDigit_def)
  have "validateAndApplyFormula h [''x''] data (initialViewer\<lparr>formulaInput := ''\"x\"/0.5''\<rparr>)
     = initialViewer\<lparr>formulaInput := ''\"x\"/0.5'',
         toasts := [\<lparr>toastType = Error, title = ''Division by zero'',
                     message = Some ''Formula contains division by 0 constant''\<rparr>]\<rparr>"
    by (simp add: validateAndApplyFormula_def Let_def t q w addToast_def initialViewer_def
        zeroFollows_def isWhiteSpace_def isDigit_def)
  with w z show ?thesis by simp
qed

theorem half_divisor_rejected_witness:
  "divisionByZeroTest (formulaWithoutQuotes ''\"x\"/0.5'')
   \<and> validateAndApplyFormula quietHost [''x''] [[(''x'', ''4'')]] (initialViewer\<lparr>formulaInput := ''\"x\"/0.5''\<rparr>)
     = initialViewer\<lparr>formulaInput := ''\"x\"/0.5'',
         toasts := [\<lparr>toastType = Error, title = ''Division by zero'',
                     message = Some ''Formula contains division by 0 constant''\<rparr>]\<rparr>"
  using half_divisor_rejected [of quietHost "[[(''x'', ''4'')]]"] by simp

text \<open>
  What the test does catch and let through: \<open>"x"/0\<close> and \<open>"x" / 0\<close> are rejected,
  \<open>"x"/5\<close>, \<open>"x"/10\<close> and a division by a column are not.
\<close>

lemma divisionByZeroTest_examples:
  "divisionByZeroTest (formulaWithoutQuotes ''\"x\"/0'')"
  "divisionByZeroTest (formulaWithoutQuotes ''\"x\" / 0'')"
  "\<not> divisionByZeroTest (formulaWithoutQuotes ''\"x\"/5'')"
  "\<not> divisionByZeroTest (formulaWithoutQuotes ''\"x\"/10'')"
  "\<not> divisionByZeroTest (formulaWithoutQuotes ''\"x\"/\"y\"'')"
  by (simp_all add: formulaWithoutQuotes_def notQuote_def zeroFollows_def isWhiteSpace_def isDigit_def)

section \<open>Properties of the formula sort\<close>

lemma positive_sub:
  "\<not> isNaN a \<Longrightarrow> \<not> isNaN b \<Longrightarrow> positive (jsSub a b) \<longleftrightarrow> \<not> jsGe b a"
  by (cases a; cases b) auto

lemma jsGe_trans: "jsGe a b \<Longrightarrow> jsGe b c \<Longrightarrow> jsGe a c"
  by (cases a; cases b; cases c) auto

lemma jsGe_total: "\<not> isNaN a \<Longrightarrow> \<not> isNaN b \<Longrightarrow> jsGe a b \<or> jsGe b a"
  by (cases a; cases b) auto

lemma orderValue_not_NaN: "\<not> isNaN (orderValue v)"
  by (cases v) (simp_all add: orderValue_def)

lemma sorted_insertSorted:
  assumes pos: "\<And>x y. positive (cmp x y) \<longleftrightarrow> \<not> le x y"
    and trans: "\<And>x y z. le x y \<Longrightarrow> le y z \<Longrightarrow> le x z"
    and total: "\<And>x y. le x y \<or> le y x"
  shows "sorted_wrt le ys \<Longrightarrow> sorted_wrt le (insertSorted cmp x ys)"
proof (induction ys)
  case Nil
  show ?case by simp
next
  case (Cons y ys)
  show ?case
  proof (cases "positive (cmp x y)")
    case True
    then have "le y x" using pos total by blast
    moreover have "\<forall>z \<in> set ys. le y z" using Cons.prems by simp
    ultimately have "\<forall>z \<in> set (insertSorted cmp x ys). le y z"
      by (simp add: set_insertSorted)
    moreover have "sorted_wrt le (insertSorted cmp x ys)"
      using Cons by simp
    ultimately show ?thesis using True by simp
  next
    case False
    then have xy: "le x y" using pos by blast
    have "\<forall>z \<in> set ys. le x z"
      using Cons.prems xy trans by auto
    with xy Cons.prems False show ?thesis by simp
  qed
qed

lemma sorted_arraySort:
  assumes pos: "\<And>x y. positive (cmp x y) \<longleftrightarrow> \<not> le x y"
    and trans: "\<And>x y z. le x y \<Longrightarrow> le y z \<Longrightarrow> le x z"
    and total: "\<And>x y. le x y \<or> le y x"
  shows "sorted_wrt le (arraySort cmp xs)"
  unfolding arraySort_def
  by (induction xs) (simp_all add: sorted_insertSorted [OF pos trans total])

lemma formulaComparator_keys:
  "formulaComparator fn Asc a b = jsSub (orderValue (fn a)) (orderValue (fn b))"
  "formulaComparator fn Desc a b = jsSub (orderValue (fn b)) (orderValue (fn a))"
  by (simp_all add: formulaComparator_def Let_def)

lemma formula_sort_sorted:
  "sorted_wrt (\<lambda>x y. jsGe (orderValue (fn y)) (orderValue (fn x))) (arraySort (formulaComparator fn Asc) rows)"
  "sorted_wrt (\<lambda>x y. jsGe (orderValue (fn x)) (orderValue (fn y))) (arraySort (formulaComparator fn Desc) rows)"
proof -
  show "sorted_wrt (\<lambda>x y. jsGe (orderValue (fn y)) (orderValue (fn x))) (arraySort (formulaComparator fn Asc) rows)"
  proof (rule sorted_arraySort)
    fix x y
    show "positive (formulaComparator fn Asc x y) \<longleftrightarrow> \<not> jsGe (orderValue (fn y)) (orderValue (fn x))"
      by (simp add: formulaComparator_keys positive_sub orderValue_not_NaN)
  next
    fix x y z
    assume "jsGe (orderValue (fn y)) (orderValue (fn x))" "jsGe (orderValue (fn z)) (orderValue (fn y))"
    then show "jsGe (orderValue (fn z)) (orderValue (fn x))" by (metis jsGe_trans)
  next
    fix x y
    show "jsGe (orderValue (fn y)) (orderValue (fn x)) \<or> jsGe (orderValue (fn x)) (orderValue (fn y))"
      by (rule jsGe_total) (rule orderValue_not_NaN)+
  qed
  show "sorted_wrt (\<lambda>x y. jsGe (orderValue (fn x)) (orderValue (fn y))) (arraySort (formulaComparator fn Desc) rows)"
  proof (rule sorted_arraySort)
    fix x y
    show "positive (formulaComparator fn Desc x y) \<longleftrightarrow> \<not> jsGe (orderValue (fn x)) (orderValue (fn y))"
      by (simp add: formulaComparator_keys positive_sub orderValue_not_NaN)
  next
    fix x y z
    assume "jsGe (orderValue (fn x)) (orderValue (fn y))" "jsGe (orderValue (fn y)) (orderValue (fn z))"
    then show "jsGe (orderValue (fn x)) (orderValue (fn z))" by (metis jsGe_trans)
  next
    fix x y
    show "jsGe (orderValue (fn x)) (orderValue (fn y)) \<or> jsGe (orderValue (fn y)) (orderValue (fn x))"
      by (rule jsGe_total) (rule orderValue_not_NaN)+
  qed
qed


text \<open>
  C1, as stated, fails for an infinite result. With the formula \<open>"a"/"b"\<close>, the record with
  \<open>a = 5\<close> and no \<open>b\<close> evaluates to \<open>+Infinity\<close>; compared with a record that evaluates
  to 3 the comparator is positive, not what negative infinity would give, and the record
  is sorted last when ascending and first when descending: as the largest value.
\<close>

theorem formula_infinity_counterexample:
  "quotient ''a'' ''b'' [(''a'', ''5'')] = PInf
   \<and> quotient ''a'' ''b'' [(''a'', ''6''), (''b'', ''2'')] = Fin 3
   \<and> formulaComparator (quotient ''a'' ''b'') Asc [(''a'', ''5'')] [(''a'', ''6''), (''b'', ''2'')] = PInf
   \<and> formulaComparator (quotient ''a'' ''b'') Asc [(''a'', ''5'')] [(''a'', ''6''), (''b'', ''2'')]
       \<noteq> jsSub NInf (quotient ''a'' ''b'' [(''a'', ''6''), (''b'', ''2'')])
   \<and> arraySort (formulaComparator (quotient ''a'' ''b'') Asc) [[(''a'', ''5'')], [(''a'', ''6''), (''b'', ''2'')]]
       = [[(''a'', ''6''), (''b'', ''2'')], [(''a'', ''5'')]]
   \<and> arraySort (formulaComparator (quotient ''a'' ''b'') Desc) [[(''a'', ''6''), (''b'', ''2'')], [(''a'', ''5'')]]
       = [[(''a'', ''5'')], [(''a'', ''6''), (''b'', ''2'')]]"
proof -
  have a: "quotient ''a'' ''b'' [(''a'', ''5'')] = PInf"
    by (simp add: quotient_def columnRef_def orZero_def cell_def parse_defs)
  have b: "quotient ''a'' ''b'' [(''a'', ''6''), (''b'', ''2'')] = Fin 3"
    by (simp add: quotient_def columnRef_def orZero_def cell_def parse_defs)
  show ?thesis
    by (simp add: a b formulaComparator_def orderValue_def arraySort_def)
qed

text \<open>
  C1, amended. Under a formula sort the comparator orders the records by the formula
  result with NaN replaced by negative infinity, in both directions: a record whose result
  is NaN is never put after another record when ascending and never before one when
  descending. An infinite result is not replaced: a record whose result is \<open>+Infinity\<close>
  is ordered as the largest value. The sorted sequence, and so the output of the pipeline
  under an active formula sort, is ordered by these values: non-decreasing when ascending,
  non-increasing when descending.
\<close>

theorem formula_nan_ordering:
  "formulaComparator fn Asc a b = jsSub (orderValue (fn a)) (orderValue (fn b))
   \<and> formulaComparator fn Desc a b = jsSub (orderValue (fn b)) (orderValue (fn a))
   \<and> (isNaN (fn a) \<longrightarrow>
        orderValue (fn a) = NInf
        \<and> \<not> positive (formulaComparator fn Asc a b)
        \<and> \<not> positive (formulaComparator fn Desc b a))
   \<and> (fn a = PInf \<longrightarrow>
        orderValue (fn a) = PInf
        \<and> \<not> positive (formulaComparator fn Asc b a)
        \<and> \<not> positive (formulaComparator fn Desc a b))
   \<and> (fn a = NInf \<longrightarrow>
        orderValue (fn a) = NInf
        \<and> \<not> positive (formulaComparator fn Asc a b)
        \<and> \<not> positive (formulaComparator fn Desc b a))
   \<and> sorted_wrt (\<lambda>x y. jsGe (orderValue (fn y)) (orderValue (fn x)))
        (arraySort (formulaComparator fn Asc) rows)
   \<and> sorted_wrt (\<lambda>x y. jsGe (orderValue (fn x)) (orderValue (fn y)))
        (arraySort (formulaComparator fn Desc) rows)
   \<and> (buildFormulaFn h (appliedFormula st) = Some fn \<and> formulaSortDir st = Some Asc \<longrightarrow>
        sorted_wrt (\<lambda>x y. jsGe (orderValue (fn y)) (orderValue (fn x))) (processedData h data headers st))
   \<and> (buildFormulaFn h (appliedFormula st) = Some fn \<and> formulaSortDir st = Some Desc \<longrightarrow>
        sorted_wrt (\<lambda>x y. jsGe (orderValue (fn x)) (orderValue (fn y))) (processedData h data headers st))"
proof -
  have nan: "\<not> positive (jsSub NInf v)" "\<not> positive (jsSub (orderValue v) PInf)" for v
    by (cases v; simp add: orderValue_def)+
  have c: "isNaN (fn a) \<longrightarrow>
        orderValue (fn a) = NInf
        \<and> \<not> positive (formulaComparator fn Asc a b)
        \<and> \<not> positive (formulaComparator fn Desc b a)"
  proof
    assume "isNaN (fn a)"
    then have k: "orderValue (fn a) = NInf" by (simp add: orderValue_def)
    then show "orderValue (fn a) = NInf
        \<and> \<not> positive (formulaComparator fn Asc a b)
        \<and> \<not> positive (formulaComparator fn Desc b a)"
      by (simp add: formulaComparator_keys nan)
  qed
  have d: "fn a = PInf \<longrightarrow>
        orderValue (fn a) = PInf
        \<and> \<not> positive (formulaComparator fn Asc b a)
        \<and> \<not> positive (formulaComparator fn Desc a b)"
  proof
    assume "fn a = PInf"
    then have k: "orderValue (fn a) = PInf" by (simp add: orderValue_def)
    then show "orderValue (fn a) = PInf
        \<and> \<not> positive (formulaComparator fn Asc b a)
        \<and> \<not> positive (formulaComparator fn Desc a b)"
      by (simp add: formulaComparator_keys nan)
  qed
  have d': "fn a = NInf \<longrightarrow>
        orderValue (fn a) = NInf
        \<and> \<not> positive (formulaComparator fn Asc a b)
        \<and> \<not> positive (formulaComparator fn Desc b a)"
  proof
    assume "fn a = NInf"
    then have k: "orderValue (fn a) = NInf" by (simp add: orderValue_def)
    then show "orderValue (fn a) = NInf
        \<and> \<not> positive (formulaComparator fn Asc a b)
        \<and> \<not> positive (formulaComparator fn Desc b a)"
      by (simp add: formulaComparator_keys nan)
  qed
  have e: "buildFormulaFn h (appliedFormula st) = Some fn \<and> formulaSortDir st = Some Asc \<longrightarrow>
        sorted_wrt (\<lambda>x y. jsGe (orderValue (fn y)) (orderValue (fn x))) (processedData h data headers st)"
    by (simp add: processedData_def Let_def sortStage_def formula_sort_sorted)
  have f: "buildFormulaFn h (appliedFormula st) = Some fn \<and> formulaSortDir st = Some Desc \<longrightarrow>
        sorted_wrt (\<lambda>x y. jsGe (orderValue (fn x)) (orderValue (fn y))) (processedData h data headers st)"
    by (simp add: processedData_def Let_def sortStage_def formula_sort_sorted)
  show ?thesis
    by (intro conjI formulaComparator_keys formula_sort_sorted c d d' e f)
qed


theorem formula_nan_ordering_witness:
  "isNaN (quotient ''a'' ''b'' [(''a'', ''x'')])
   \<and> \<not> positive (formulaComparator (quotient ''a'' ''b'') Asc [(''a'', ''x'')] [(''a'', ''6''), (''b'', ''2'')])
   \<and> \<not> positive (formulaComparator (quotient ''a'' ''b'') Desc [(''a'', ''6''), (''b'', ''2'')] [(''a'', ''x'')])
   \<and> quotient ''a'' ''b'' [(''a'', ''5'')] = PInf
   \<and> \<not> positive (formulaComparator (quotient ''a'' ''b'') Asc [(''a'', ''6''), (''b'', ''2'')] [(''a'', ''5'')])
   \<and> quotient ''a'' ''b'' [(''a'', ''-5'')] = NInf
   \<and> \<not> positive (formulaComparator (quotient ''a'' ''b'') Asc [(''a'', ''-5'')] [(''a'', ''6''), (''b'', ''2'')])
   \<and> buildFormulaFn quotientHost ''\"a\"/\"b\"'' = Some (quotient ''a'' ''b'')
   \<and> processedData quotientHost [[(''a'', ''6''), (''b'', ''2'')], [(''a'', ''x'')], [(''a'', ''5'')]] [''a'', ''b'']
        (initialViewer\<lparr>appliedFormula := ''\"a\"/\"b\"'', formulaSortDir := Some Asc\<rparr>)
       = [[(''a'', ''x'')], [(''a'', ''6''), (''b'', ''2'')], [(''a'', ''5'')]]
   \<and> processedData quotientHost [[(''a'', ''6''), (''b'', ''2'')], [(''a'', ''x'')], [(''a'', ''5'')]] [''a'', ''b'']
        (initialViewer\<lparr>appliedFormula := ''\"a\"/\"b\"'', formulaSortDir := Some Desc\<rparr>)
       = [[(''a'', ''5'')], [(''a'', ''6''), (''b'', ''2'')], [(''a'', ''x'')]]
   \<and> sorted_wrt (\<lambda>x y. jsGe (orderValue (quotient ''a'' ''b'' y)) (orderValue (quotient ''a'' ''b'' x)))
        [[(''a'', ''x'')], [(''a'', ''6''), (''b'', ''2'')], [(''a'', ''5'')]]
   \<and> sorted_wrt (\<lambda>x y. jsGe (orderValue (quotient ''a'' ''b'' x)) (orderValue (quotient ''a'' ''b'' y)))
        [[(''a'', ''5'')], [(''a'', ''6''), (''b'', ''2'')], [(''a'', ''x'')]]"
proof -
  let ?q = "quotient ''a'' ''b''"
  let ?data = "[[(''a'', ''6''), (''b'', ''2'')], [(''a'', ''x'')], [(''a'', ''5'')]]"
  let ?asc = "initialViewer\<lparr>appliedFormula := ''\"a\"/\"b\"'', formulaSortDir := Some Asc\<rparr>"
  let ?desc = "initialViewer\<lparr>appliedFormula := ''\"a\"/\"b\"'', formulaSortDir := Some Desc\<rparr>"
  have x: "?q [(''a'', ''x'')] = NaN"
    by (simp add: quotient_def columnRef_def orZero_def cell_def parse_defs)
  have i: "?q [(''a'', ''5'')] = PInf"
    by (simp add: quotient_def columnRef_def orZero_def cell_def parse_defs)
  have s: "?q [(''a'', ''6''), (''b'', ''2'')] = Fin 3"
    by (simp add: quotient_def columnRef_def orZero_def cell_def parse_defs)
  have b: "buildFormulaFn quotientHost ''\"a\"/\"b\"'' = Some ?q"
    by (simp add: buildFormulaFn_def quotientHost_def trim_def isWhiteSpace_def)
  have ba: "buildFormulaFn quotientHost (appliedFormula ?asc) = Some ?q \<and> formulaSortDir ?asc = Some Asc"
    using b by simp
  have bd: "buildFormulaFn quotientHost (appliedFormula ?desc) = Some ?q \<and> formulaSortDir ?desc = Some Desc"
    using b by simp
  have pa: "processedData quotientHost ?data [''a'', ''b''] ?asc
       = [[(''a'', ''x'')], [(''a'', ''6''), (''b'', ''2'')], [(''a'', ''5'')]]"
    by (simp add: processedData_def categoryStage_def searchStage_def sentinelStage_def
        sortStage_def b initialViewer_def cell_def strictEq_def parse_defs
        arraySort_def formulaComparator_def orderValue_def x i s)
  have pd: "processedData quotientHost ?data [''a'', ''b''] ?desc
       = [[(''a'', ''5'')], [(''a'', ''6''), (''b'', ''2'')], [(''a'', ''x'')]]"
    by (simp add: processedData_def categoryStage_def searchStage_def sentinelStage_def
        sortStage_def b initialViewer_def cell_def strictEq_def parse_defs
        arraySort_def formulaComparator_def orderValue_def x i s)
  have n: "isNaN (?q [(''a'', ''x'')])"
    by (simp add: x)
  note th = formula_nan_ordering [of ?q _ _ _ quotientHost _ ?data "[''a'', ''b'']"]
  from th [of "[(''a'', ''x'')]" "[(''a'', ''6''), (''b'', ''2'')]" "[]" ?asc] n ba
  have 1: "\<not> positive (formulaComparator ?q Asc [(''a'', ''x'')] [(''a'', ''6''), (''b'', ''2'')])"
    and 2: "\<not> positive (formulaComparator ?q Desc [(''a'', ''6''), (''b'', ''2'')] [(''a'', ''x'')])"
    and 3: "sorted_wrt (\<lambda>x y. jsGe (orderValue (?q y)) (orderValue (?q x)))
              (processedData quotientHost ?data [''a'', ''b''] ?asc)"
    by blast+
  from th [of "[(''a'', ''5'')]" "[(''a'', ''6''), (''b'', ''2'')]" "[]" ?desc] i bd
  have 4: "\<not> positive (formulaComparator ?q Asc [(''a'', ''6''), (''b'', ''2'')] [(''a'', ''5'')])"
    and 5: "sorted_wrt (\<lambda>x y. jsGe (orderValue (?q x)) (orderValue (?q y)))
              (processedData quotientHost ?data [''a'', ''b''] ?desc)"
    by blast+
  have ni: "?q [(''a'', ''-5'')] = NInf"
    by (simp add: quotient_def columnRef_def orZero_def cell_def parse_defs)
  from th [of "[(''a'', ''-5'')]" "[(''a'', ''6''), (''b'', ''2'')]" "[]" ?asc] ni
  have 8: "\<not> positive (formulaComparator ?q Asc [(''a'', ''-5'')] [(''a'', ''6''), (''b'', ''2'')])"
    by blast
  from 3 have 6: "sorted_wrt (\<lambda>x y. jsGe (orderValue (?q y)) (orderValue (?q x)))
        [[(''a'', ''x'')], [(''a'', ''6''), (''b'', ''2'')], [(''a'', ''5'')]]"
    by (simp only: pa)
  from 5 have 7: "sorted_wrt (\<lambda>x y. jsGe (orderValue (?q x)) (orderValue (?q y)))
        [[(''a'', ''5'')], [(''a'', ''6''), (''b'', ''2'')], [(''a'', ''x'')]]"
    by (simp only: pd)
  show ?thesis
    by (intro conjI n 1 2 i 4 ni 8 b pa pd 6 7)
qed

section \<open>Properties of the sort state\<close>

lemma validate_sort_state:
  "sortConfig (validateAndApplyFormula h headers data st) = sortConfig st
   \<and> (formulaSortDir (validateAndApplyFormula h headers data st) = formulaSortDir st
      \<or> formulaSortDir (validateAndApplyFormula h headers data st) = None)"
  by (simp add: validateAndApplyFormula_def Let_def addToast_def invalidSyntax_def formulaAccepted_def
      split: option.splits list.splits)

lemma reachable_oneSortMode: "reachable st \<Longrightarrow> oneSortMode st"
proof (induction rule: reachable.induct)
  case initial
  show ?case by (simp add: oneSortMode_def initialViewer_def)
next
  case (columnSort st column)
  show ?case by (simp add: oneSortMode_def handleSort_def)
next
  case (formulaSort st dir)
  then show ?case by (simp add: oneSortMode_def applyFormulaSort_def)
next
  case (clearSort st)
  show ?case by (simp add: oneSortMode_def clearFormulaSort_def)
next
  case (reset st headers)
  show ?case by (simp add: oneSortMode_def handleReset_def Let_def)
next
  case (validate st h headers data)
  then show ?case
    using validate_sort_state [of h headers data st] by (auto simp: oneSortMode_def)
next
  case (history st f)
  then show ?case by (simp add: oneSortMode_def applyFromHistory_def addToast_def)
next
  case (other st st')
  then show ?case by (simp add: oneSortMode_def)
qed

text \<open>
  C10. In every reachable state the column sort and the formula sort direction are not
  both set. A column sort request clears the formula sort direction. A formula sort can be
  requested only while a formula is applied (the two buttons are disabled otherwise, on
  the condition the handler itself tests), and the request then sets the direction and
  clears the column sort; were the handler called with no applied formula, it would change
  nothing. Requests on one column give ascending, then descending, then no sort, and a
  request on a column that is not the sorted one gives ascending.
\<close>

theorem sort_mode_exclusive:
  "(reachable st \<longrightarrow> sortConfig st = None \<or> formulaSortDir st = None)
   \<and> formulaSortDir (handleSort column st) = None
   \<and> (trim (appliedFormula st) \<noteq> [] \<longrightarrow>
        sortConfig (applyFormulaSort dir st) = None
        \<and> formulaSortDir (applyFormulaSort dir st) = Some dir)
   \<and> (trim (appliedFormula st) = [] \<longrightarrow> applyFormulaSort dir st = st)
   \<and> ((\<forall>prev. sortConfig st = Some prev \<longrightarrow> key prev \<noteq> column) \<longrightarrow>
        sortConfig (handleSort column st) = Some \<lparr>key = column, direction = Asc\<rparr>
        \<and> sortConfig (handleSort column (handleSort column st)) = Some \<lparr>key = column, direction = Desc\<rparr>
        \<and> sortConfig (handleSort column (handleSort column (handleSort column st))) = None)
   \<and> (sortConfig st = Some \<lparr>key = column, direction = Asc\<rparr> \<longrightarrow>
        sortConfig (handleSort column st) = Some \<lparr>key = column, direction = Desc\<rparr>)
   \<and> (sortConfig st = Some \<lparr>key = column, direction = Desc\<rparr> \<longrightarrow>
        sortConfig (handleSort column st) = None)"
proof -
  have a: "reachable st \<longrightarrow> sortConfig st = None \<or> formulaSortDir st = None"
    using reachable_oneSortMode [of st] by (simp add: oneSortMode_def)
  have b: "formulaSortDir (handleSort column st) = None"
    by (simp add: handleSort_def)
  have c: "trim (appliedFormula st) \<noteq> [] \<longrightarrow>
        sortConfig (applyFormulaSort dir st) = None
        \<and> formulaSortDir (applyFormulaSort dir st) = Some dir"
    by (simp add: applyFormulaSort_def)
  have d: "trim (appliedFormula st) = [] \<longrightarrow> applyFormulaSort dir st = st"
    by (simp add: applyFormulaSort_def)
  have e: "(\<forall>prev. sortConfig st = Some prev \<longrightarrow> key prev \<noteq> column) \<longrightarrow>
        sortConfig (handleSort column st) = Some \<lparr>key = column, direction = Asc\<rparr>
        \<and> sortConfig (handleSort column (handleSort column st)) = Some \<lparr>key = column, direction = Desc\<rparr>
        \<and> sortConfig (handleSort column (handleSort column (handleSort column st))) = None"
    by (cases "sortConfig st") (simp_all add: handleSort_def)
  have f: "sortConfig st = Some \<lparr>key = column, direction = Asc\<rparr> \<longrightarrow>
        sortConfig (handleSort column st) = Some \<lparr>key = column, direction = Desc\<rparr>"
    by (simp add: handleSort_def)
  have g: "sortConfig st = Some \<lparr>key = column, direction = Desc\<rparr> \<longrightarrow>
        sortConfig (handleSort column st) = None"
    by (simp add: handleSort_def)
  show ?thesis
    by (intro conjI a b c d e f g)
qed


theorem sort_mode_exclusive_witness:
  "reachable (applyFromHistory ''\"price\"'' (handleSort ''price'' initialViewer))
   \<and> sortConfig (applyFromHistory ''\"price\"'' (handleSort ''price'' initialViewer))
       = Some \<lparr>key = ''price'', direction = Asc\<rparr>
   \<and> formulaSortDir (applyFromHistory ''\"price\"'' (handleSort ''price'' initialViewer)) = None
   \<and> trim (appliedFormula (applyFromHistory ''\"price\"'' (handleSort ''price'' initialViewer))) \<noteq> []
   \<and> sortConfig (applyFormulaSort Desc (applyFromHistory ''\"price\"'' (handleSort ''price'' initialViewer))) = None
   \<and> formulaSortDir (applyFormulaSort Desc (applyFromHistory ''\"price\"'' (handleSort ''price'' initialViewer)))
       = Some Desc
   \<and> formulaSortDir (handleSort ''weight''
         (applyFormulaSort Desc (applyFromHistory ''\"price\"'' (handleSort ''price'' initialViewer)))) = None
   \<and> trim (appliedFormula (handleSort ''price'' initialViewer)) = []
   \<and> applyFormulaSort Desc (handleSort ''price'' initialViewer) = handleSort ''price'' initialViewer
   \<and> sortConfig (handleSort ''weight'' (handleSort ''price'' initialViewer))
       = Some \<lparr>key = ''weight'', direction = Asc\<rparr>
   \<and> sortConfig (handleSort ''weight'' (handleSort ''weight'' (handleSort ''price'' initialViewer)))
       = Some \<lparr>key = ''weight'', direction = Desc\<rparr>
   \<and> sortConfig (handleSort ''weight'' (handleSort ''weight'' (handleSort ''weight''
         (handleSort ''price'' initialViewer)))) = None"
proof -
  let ?s1 = "handleSort ''price'' initialViewer"
  let ?s2 = "applyFromHistory ''\"price\"'' ?s1"
  have r1: "reachable ?s1"
    by (intro reachable.columnSort reachable.initial)
  have r2: "reachable ?s2"
    by (intro reachable.history r1)
  have c2: "sortConfig ?s2 = Some \<lparr>key = ''price'', direction = Asc\<rparr>"
    by (simp add: applyFromHistory_def addToast_def handleSort_def initialViewer_def)
  have f2: "trim (appliedFormula ?s2) \<noteq> []"
    by (simp add: applyFromHistory_def addToast_def trim_def isWhiteSpace_def)
  have f1: "trim (appliedFormula ?s1) = []"
    by (simp add: handleSort_def initialViewer_def trim_def)
  have k: "\<forall>prev. sortConfig ?s1 = Some prev \<longrightarrow> key prev \<noteq> ''weight''"
    by (simp add: handleSort_def initialViewer_def)
  from sort_mode_exclusive [of ?s2 "''weight''" Desc] r2 c2 f2
  have 1: "formulaSortDir ?s2 = None"
    and 2: "sortConfig (applyFormulaSort Desc ?s2) = None"
    and 3: "formulaSortDir (applyFormulaSort Desc ?s2) = Some Desc"
    by auto
  from sort_mode_exclusive [of "applyFormulaSort Desc ?s2" "''weight''" Desc]
  have 4: "formulaSortDir (handleSort ''weight'' (applyFormulaSort Desc ?s2)) = None"
    by blast
  from sort_mode_exclusive [of ?s1 "''weight''" Desc] f1 k
  have 5: "applyFormulaSort Desc ?s1 = ?s1"
    and 6: "sortConfig (handleSort ''weight'' ?s1) = Some \<lparr>key = ''weight'', direction = Asc\<rparr>"
    by blast+
  from sort_mode_exclusive [of "handleSort ''weight'' ?s1" "''weight''" Desc] 6
  have 7: "sortConfig (handleSort ''weight'' (handleSort ''weight'' ?s1))
             = Some \<lparr>key = ''weight'', direction = Desc\<rparr>"
    by blast
  from sort_mode_exclusive [of "handleSort ''weight'' (handleSort ''weight'' ?s1)" "''weight''" Desc] 7
  have 8: "sortConfig (handleSort ''weight'' (handleSort ''weight'' (handleSort ''weight'' ?s1))) = None"
    by blast
  show ?thesis
    by (intro conjI r2 c2 1 f2 2 3 4 f1 5 6 7 8)
qed

section \<open>Properties of the cascading toggle\<close>

lemma split_nonempty: "split c s \<noteq> []"
  by (induction s) (auto split: list.splits)

lemma split_append: "split c (p @ c # r) = split c p @ split c r"
proof (induction p)
  case Nil
  show ?case by simp
next
  case (Cons x p)
  obtain y ys where "split c p = y # ys"
    using split_nonempty [of c p] by (cases "split c p") auto
  with Cons show ?case by simp
qed

lemma split_no_sep: "c \<notin> set s \<Longrightarrow> split c s = [s]"
  by (induction s) auto

lemma join_append:
  "xs \<noteq> [] \<Longrightarrow> ys \<noteq> [] \<Longrightarrow> join sep (xs @ ys) = join sep xs @ sep @ join sep ys"
proof (induction xs rule: join.induct[where ?a0.0 = sep])
  case (1)
  then show ?case by simp
next
  case (2 x)
  then show ?case by (cases ys) simp_all
next
  case (3 x y zs)
  then show ?case by simp
qed

lemma join_split: "join [c] (split c s) = s"
proof (induction s)
  case Nil
  show ?case by simp
next
  case (Cons x s)
  obtain y ys where sp: "split c s = y # ys"
    using split_nonempty [of c s] by (cases "split c s") auto
  show ?case
  proof (cases "x = c")
    case True
    with Cons sp show ?thesis by simp
  next
    case False
    with Cons sp show ?thesis by (cases ys) auto
  qed
qed

lemma startsWith_iff: "startsWith q p \<longleftrightarrow> (\<exists>r. q = p @ r)"
proof
  assume "startsWith q p"
  then have "q = p @ drop (length p) q"
    by (metis startsWith_def append_take_drop_id)
  then show "\<exists>r. q = p @ r" ..
next
  assume "\<exists>r. q = p @ r"
  then show "startsWith q p" by (auto simp: startsWith_def)
qed

lemma ancestorPaths_iff: "p \<in> set (ancestorPaths q) \<longleftrightarrow> (\<exists>r. q = p @ ''#'' @ r)"
proof
  assume "p \<in> set (ancestorPaths q)"
  then obtain i where i: "1 \<le> i" "i < length (split CHR ''#'' q)"
    and p: "p = join ''#'' (take i (split CHR ''#'' q))"
    by (auto simp: ancestorPaths_def Let_def)
  let ?S = "split CHR ''#'' q"
  have "q = join ''#'' (take i ?S @ drop i ?S)"
    by (simp add: join_split)
  also have "\<dots> = join ''#'' (take i ?S) @ ''#'' @ join ''#'' (drop i ?S)"
    using i by (intro join_append) auto
  finally show "\<exists>r. q = p @ ''#'' @ r"
    using p by blast
next
  assume "\<exists>r. q = p @ ''#'' @ r"
  then obtain r where q: "q = p @ CHR ''#'' # r" by auto
  have S: "split CHR ''#'' q = split CHR ''#'' p @ split CHR ''#'' r"
    unfolding q by (rule split_append)
  let ?i = "length (split CHR ''#'' p)"
  have "1 \<le> ?i"
    using split_nonempty [of "CHR ''#''" p] by (cases "split CHR ''#'' p") auto
  moreover have "?i < length (split CHR ''#'' q)"
    using split_nonempty [of "CHR ''#''" r] by (simp add: S)
  moreover have "join ''#'' (take ?i (split CHR ''#'' q)) = p"
    by (simp add: S join_split)
  ultimately have "?i \<in> set [1..<length (split CHR ''#'' q)]"
    and "join ''#'' (take ?i (split CHR ''#'' q)) = p"
    by simp_all
  then have "p \<in> (\<lambda>i. join ''#'' (take i (split CHR ''#'' q))) ` set [1..<length (split CHR ''#'' q)]"
    by (metis imageI)
  then show "p \<in> set (ancestorPaths q)"
    by (simp add: ancestorPaths_def Let_def)
qed

lemma ancestorPaths_root: "CHR ''#'' \<notin> set nm \<Longrightarrow> ancestorPaths nm = []"
  by (simp add: ancestorPaths_def split_no_sep)

lemma ancestorPaths_child:
  assumes "CHR ''#'' \<notin> set nm"
  shows "ancestorPaths (pp @ CHR ''#'' # nm) = ancestorPaths pp @ [pp]"
proof -
  let ?S = "split CHR ''#'' pp"
  have S: "split CHR ''#'' (pp @ CHR ''#'' # nm) = ?S @ [nm]"
    using assms by (simp add: split_append split_no_sep)
  have n: "1 \<le> length ?S"
    using split_nonempty [of "CHR ''#''" pp] by (cases ?S) auto
  then have u: "[1..<length (?S @ [nm])] = [1..<length ?S] @ [length ?S]"
    by simp
  have "ancestorPaths (pp @ CHR ''#'' # nm)
        = map (\<lambda>i. join ''#'' (take i (?S @ [nm]))) ([1..<length ?S] @ [length ?S])"
    unfolding ancestorPaths_def Let_def S u ..
  also have "\<dots> = map (\<lambda>i. join ''#'' (take i (?S @ [nm]))) [1..<length ?S]
                  @ [join ''#'' (take (length ?S) (?S @ [nm]))]"
    by simp
  also have "map (\<lambda>i. join ''#'' (take i (?S @ [nm]))) [1..<length ?S]
        = map (\<lambda>i. join ''#'' (take i ?S)) [1..<length ?S]"
    by simp
  also have "join ''#'' (take (length ?S) (?S @ [nm])) = pp"
    by (simp add: join_split)
  finally show ?thesis
    by (simp add: ancestorPaths_def Let_def)
qed


lemma dfs_nodes: "dfs ns = map (\<lambda>e. path (snd e)) (nodesWithAncestors anc ns)"
  by (induction anc ns rule: nodesWithAncestors.induct) simp_all

lemma ancestors_extend:
  "(a, m) \<in> set (nodesWithAncestors anc ns) \<Longrightarrow> set anc \<subseteq> set a"
  by (induction anc ns rule: nodesWithAncestors.induct) auto

lemma subtree_listed:
  "(a, n) \<in> set (nodesWithAncestors anc ns) \<Longrightarrow>
   set (nodesWithAncestors (a @ [path n]) (children n)) \<subseteq> set (nodesWithAncestors anc ns)"
  by (induction anc ns rule: nodesWithAncestors.induct) auto

lemma ancestors_are_prefixes:
  "wellFormed parent ns \<Longrightarrow>
   anc = (case parent of None \<Rightarrow> [] | Some pp \<Rightarrow> ancestorPaths pp @ [pp]) \<Longrightarrow>
   (a, m) \<in> set (nodesWithAncestors anc ns) \<Longrightarrow> a = ancestorPaths (path m)"
proof (induction anc ns arbitrary: parent rule: nodesWithAncestors.induct)
  case (1 anc)
  then show ?case by simp
next
  case (2 anc nm p cs ns)
  from "2.prems"(1) have "CHR ''#'' \<notin> set nm
      \<and> p = (case parent of None \<Rightarrow> nm | Some pp \<Rightarrow> pp @ ''#'' @ nm)
      \<and> wellFormed (Some p) cs \<and> wellFormed parent ns"
    unfolding wellFormed.simps .
  then have nm: "CHR ''#'' \<notin> set nm"
    and p: "p = (case parent of None \<Rightarrow> nm | Some pp \<Rightarrow> pp @ ''#'' @ nm)"
    and wcs: "wellFormed (Some p) cs" and wns: "wellFormed parent ns"
    by blast+
  have here: "anc = ancestorPaths p"
  proof (cases parent)
    case None
    with p "2.prems"(2) nm show ?thesis by (simp add: ancestorPaths_root)
  next
    case (Some pp)
    with p "2.prems"(2) nm show ?thesis by (simp add: ancestorPaths_child)
  qed
  from "2.prems"(3) consider "(a, m) = (anc, CategoryNode nm p cs)"
    | "(a, m) \<in> set (nodesWithAncestors (anc @ [p]) cs)"
    | "(a, m) \<in> set (nodesWithAncestors anc ns)"
    by auto
  then show ?case
  proof cases
    case 1
    with here show ?thesis by simp
  next
    case 2
    have "anc @ [p] = (case Some p of None \<Rightarrow> [] | Some pp \<Rightarrow> ancestorPaths pp @ [pp])"
      using here by simp
    from "2.IH"(1) [OF wcs this 2] show ?thesis .
  next
    case 3
    from "2.IH"(2) [OF wns "2.prems"(2) 3] show ?thesis .
  qed
qed

lemma descendants_of_node:
  assumes "(anc, n) \<in> set (nodesWithAncestors [] tree)"
  shows "set (collectPaths (children n)) \<subseteq> descendantPaths tree (path n)"
proof
  fix q
  assume "q \<in> set (collectPaths (children n))"
  then obtain a m where am: "(a, m) \<in> set (nodesWithAncestors (anc @ [path n]) (children n))"
    and q: "q = path m"
    by (auto simp: collectPaths_def dfs_nodes [of _ "anc @ [path n]"])
  from am have "path n \<in> set a"
    using ancestors_extend by fastforce
  moreover from am have "(a, m) \<in> set (nodesWithAncestors [] tree)"
    using subtree_listed [OF assms] by blast
  ultimately show "q \<in> descendantPaths tree (path n)"
    using q by (force simp: descendantPaths_def)
qed

lemma toggle_descendants:
  assumes wf: "wellFormed None tree" and n: "(anc, n) \<in> set (nodesWithAncestors [] tree)"
  shows "set (filter (\<lambda>p. p = path n \<or> startsWith p (path n @ ''#'')) (collectPaths tree))
         = {path n} \<union> descendantPaths tree (path n)"
proof -
  have key: "startsWith (path m) (path n @ ''#'') \<longleftrightarrow> path n \<in> set a"
    if "(a, m) \<in> set (nodesWithAncestors [] tree)" for a m
  proof -
    from ancestors_are_prefixes [OF wf _ that] have "a = ancestorPaths (path m)" by simp
    then show ?thesis
      by (simp add: startsWith_iff ancestorPaths_iff)
  qed
  have "set (filter (\<lambda>p. p = path n \<or> startsWith p (path n @ ''#'')) (collectPaths tree))
        = {path m | a m. (a, m) \<in> set (nodesWithAncestors [] tree)
                         \<and> (path m = path n \<or> startsWith (path m) (path n @ ''#''))}"
    by (force simp: collectPaths_def dfs_nodes [of _ "[]"])
  also have "\<dots> = {path m | a m. (a, m) \<in> set (nodesWithAncestors [] tree)
                         \<and> (path m = path n \<or> path n \<in> set a)}"
    using key by blast
  also have "\<dots> = {path n} \<union> descendantPaths tree (path n)"
    using n by (force simp: descendantPaths_def)
  finally show ?thesis .
qed

lemma ancestors_apart:
  assumes wf: "wellFormed None tree" and n: "(anc, n) \<in> set (nodesWithAncestors [] tree)"
  shows "set anc \<inter> ({path n} \<union> descendantPaths tree (path n)) = {}"
proof -
  from ancestors_are_prefixes [OF wf _ n] have anc: "anc = ancestorPaths (path n)" by simp
  have short: "length a < length (path n)" if "a \<in> set anc" for a
    using that anc by (auto simp: ancestorPaths_iff)
  have long: "length (path n) < length q" if "q \<in> descendantPaths tree (path n)" for q
  proof -
    from that obtain a m where am: "(a, m) \<in> set (nodesWithAncestors [] tree)"
      and "path n \<in> set a" and q: "q = path m"
      by (auto simp: descendantPaths_def)
    moreover from ancestors_are_prefixes [OF wf _ am] have "a = ancestorPaths (path m)" by simp
    ultimately show ?thesis by (auto simp: ancestorPaths_iff)
  qed
  show ?thesis
    using short long by fastforce
qed

text \<open>
  C4. In a well-formed category tree, for every node and every Selection Set: toggling the
  node's path when it is not selected gives the Selection Set enlarged by that path, all
  descendant paths and all ancestor paths; toggling it when it is selected gives the
  Selection Set without that path and the descendant paths, every other path as before.
  The ancestor paths are none of the removed ones, and the paths of the node's subtree are
  among the descendant paths.
\<close>

theorem toggle_cascade:
  assumes "wellFormed None tree" and "(anc, n) \<in> set (nodesWithAncestors [] tree)"
  shows "(path n \<notin> selected \<longrightarrow>
            togglePath tree selected (path n)
              = selected \<union> {path n} \<union> descendantPaths tree (path n) \<union> set anc)
         \<and> (path n \<in> selected \<longrightarrow>
            togglePath tree selected (path n)
              = selected - ({path n} \<union> descendantPaths tree (path n)))
         \<and> set (collectPaths (children n)) \<subseteq> descendantPaths tree (path n)
         \<and> set anc \<inter> ({path n} \<union> descendantPaths tree (path n)) = {}"
proof -
  from ancestors_are_prefixes [OF assms(1) _ assms(2)] have anc: "anc = ancestorPaths (path n)" by simp
  have a: "path n \<notin> selected \<longrightarrow>
            togglePath tree selected (path n)
              = selected \<union> {path n} \<union> descendantPaths tree (path n) \<union> set anc"
    using toggle_descendants [OF assms] anc
    by (auto simp: togglePath_def Let_def ancestorPaths_def simp del: set_filter)
  have b: "path n \<in> selected \<longrightarrow>
            togglePath tree selected (path n)
              = selected - ({path n} \<union> descendantPaths tree (path n))"
    using toggle_descendants [OF assms]
    by (simp add: togglePath_def Let_def del: set_filter)
  show ?thesis
    by (intro conjI a b descendants_of_node [OF assms(2)] ancestors_apart [OF assms])
qed


theorem toggle_cascade_witness:
  "wellFormed None exampleTree
   \<and> ([''Drinks''], CategoryNode ''Tea'' ''Drinks#Tea'' []) \<in> set (nodesWithAncestors [] exampleTree)
   \<and> togglePath exampleTree {''Snacks''} ''Drinks#Tea'' = {''Snacks'', ''Drinks#Tea'', ''Drinks''}
   \<and> ([], CategoryNode ''Drinks'' ''Drinks''
             [CategoryNode ''Coffee'' ''Drinks#Coffee'' [], CategoryNode ''Tea'' ''Drinks#Tea'' []])
       \<in> set (nodesWithAncestors [] exampleTree)
   \<and> togglePath exampleTree {''Drinks'', ''Drinks#Coffee'', ''Drinks#Tea'', ''Snacks''} ''Drinks'' = {''Snacks''}
   \<and> togglePath exampleTree {''Drinks'', ''Drinks#Coffee'', ''Drinks#Tea'', ''Snacks''} ''Drinks#Tea''
       = {''Drinks'', ''Drinks#Coffee'', ''Snacks''}"
proof -
  let ?tea = "CategoryNode ''Tea'' ''Drinks#Tea'' []"
  let ?drinks = "CategoryNode ''Drinks'' ''Drinks''
             [CategoryNode ''Coffee'' ''Drinks#Coffee'' [], CategoryNode ''Tea'' ''Drinks#Tea'' []]"
  have wf: "wellFormed None exampleTree"
    by (simp add: exampleTree_def)
  have m1: "([''Drinks''], ?tea) \<in> set (nodesWithAncestors [] exampleTree)"
    by (simp add: exampleTree_def)
  have m2: "([], ?drinks) \<in> set (nodesWithAncestors [] exampleTree)"
    by (simp add: exampleTree_def)
  have d1: "descendantPaths exampleTree ''Drinks#Tea'' = {}"
    by (simp add: descendantPaths_def exampleTree_def)
  have d2: "descendantPaths exampleTree ''Drinks'' = {''Drinks#Coffee'', ''Drinks#Tea''}"
    by (simp add: descendantPaths_def exampleTree_def)
  from toggle_cascade [OF wf m1, of "{''Snacks''}"]
  have "togglePath exampleTree {''Snacks''} ''Drinks#Tea''
          = {''Snacks''} \<union> {''Drinks#Tea''} \<union> descendantPaths exampleTree ''Drinks#Tea'' \<union> set [''Drinks'']"
    by simp
  then have 1: "togglePath exampleTree {''Snacks''} ''Drinks#Tea'' = {''Snacks'', ''Drinks#Tea'', ''Drinks''}"
    by (simp only: d1) auto
  from toggle_cascade [OF wf m2, of "{''Drinks'', ''Drinks#Coffee'', ''Drinks#Tea'', ''Snacks''}"]
  have "togglePath exampleTree {''Drinks'', ''Drinks#Coffee'', ''Drinks#Tea'', ''Snacks''} ''Drinks''
          = {''Drinks'', ''Drinks#Coffee'', ''Drinks#Tea'', ''Snacks''}
            - ({''Drinks''} \<union> descendantPaths exampleTree ''Drinks'')"
    by simp
  then have 2: "togglePath exampleTree {''Drinks'', ''Drinks#Coffee'', ''Drinks#Tea'', ''Snacks''} ''Drinks''
          = {''Snacks''}"
    by (simp only: d2) auto
  from toggle_cascade [OF wf m1, of "{''Drinks'', ''Drinks#Coffee'', ''Drinks#Tea'', ''Snacks''}"]
  have "togglePath exampleTree {''Drinks'', ''Drinks#Coffee'', ''Drinks#Tea'', ''Snacks''} ''Drinks#Tea''
          = {''Drinks'', ''Drinks#Coffee'', ''Drinks#Tea'', ''Snacks''}
            - ({''Drinks#Tea''} \<union> descendantPaths exampleTree ''Drinks#Tea'')"
    by simp
  then have 3: "togglePath exampleTree {''Drinks'', ''Drinks#Coffee'', ''Drinks#Tea'', ''Snacks''} ''Drinks#Tea''
       = {''Drinks'', ''Drinks#Coffee'', ''Snacks''}"
    by (simp only: d1) auto
  show ?thesis
    by (intro conjI wf m1 1 m2 2 3)
qed

end
